theory Spec2Isabelle
  imports Main "HOL-Library.Multiset"
begin

section \<open>Entity store\<close>

text \<open>
  The models of \<^verbatim>\<open>src/unnamed/part_000\<close> are Mongoose models over MongoDB
  collections. An ObjectId is a natural number, a Date a number of milliseconds, a JS
  number an integer. A collection is an association list from \<^verbatim>\<open>_id\<close> to the stored
  fields, in insertion order. A document in memory carries, beside its fields, what
  Mongoose tracks about it: its \<^verbatim>\<open>_id\<close>, \<^verbatim>\<open>isNew\<close> and the modified paths.
  Documents are read whole, with every path selected.
\<close>

type_synonym object_id = nat
type_synonym date = nat

datatype error =
    ValidationError string
  | DuplicateKeyError string
  | DocumentNotFoundError
  | StoreError
  | DuplicateEnrollmentError
  | ConflictDetected "string list"

record 'f document =
  doc_id :: object_id
  isNew :: bool
  modifiedPaths :: "string list"
  doc :: 'f

definition isModified :: "'f document \<Rightarrow> string \<Rightarrow> bool" where
  "isModified d p = (p \<in> set (modifiedPaths d))"

text \<open>JS truthiness of an optional string: \<^verbatim>\<open>undefined\<close> and \<^verbatim>\<open>''\<close> are falsy.\<close>

definition truthy :: "string option \<Rightarrow> bool" where
  "truthy v = (case v of None \<Rightarrow> False | Some s \<Rightarrow> s \<noteq> [])"

text \<open>\<^verbatim>\<open>a || b\<close> on optional strings.\<close>

definition or_else :: "string option \<Rightarrow> string option \<Rightarrow> string option" where
  "or_else a b = (if truthy a then a else b)"

text \<open>
  The setter of a String path declared \<^verbatim>\<open>trim: true\<close> is \<^verbatim>\<open>String.prototype.trim\<close>:
  it strips the WhiteSpace and LineTerminator code points from both ends. A string is
  its UTF-8 bytes, so these are the byte sequences of U+0009 to U+000D, U+0020,
  U+00A0, U+1680, U+2000 to U+200A, U+2028, U+2029, U+202F, U+205F, U+3000 and U+FEFF.
\<close>

definition white_space :: "string list" where
  "white_space =
     [[CHR 0x09], [CHR 0x0A], [CHR 0x0B], [CHR 0x0C], [CHR 0x0D], [CHR 0x20],
      [CHR 0xC2, CHR 0xA0],
      [CHR 0xE1, CHR 0x9A, CHR 0x80],
      [CHR 0xE2, CHR 0x80, CHR 0x80], [CHR 0xE2, CHR 0x80, CHR 0x81],
      [CHR 0xE2, CHR 0x80, CHR 0x82], [CHR 0xE2, CHR 0x80, CHR 0x83],
      [CHR 0xE2, CHR 0x80, CHR 0x84], [CHR 0xE2, CHR 0x80, CHR 0x85],
      [CHR 0xE2, CHR 0x80, CHR 0x86], [CHR 0xE2, CHR 0x80, CHR 0x87],
      [CHR 0xE2, CHR 0x80, CHR 0x88], [CHR 0xE2, CHR 0x80, CHR 0x89],
      [CHR 0xE2, CHR 0x80, CHR 0x8A],
      [CHR 0xE2, CHR 0x80, CHR 0xA8], [CHR 0xE2, CHR 0x80, CHR 0xA9],
      [CHR 0xE2, CHR 0x80, CHR 0xAF],
      [CHR 0xE2, CHR 0x81, CHR 0x9F],
      [CHR 0xE3, CHR 0x80, CHR 0x80],
      [CHR 0xEF, CHR 0xBB, CHR 0xBF]]"

definition starts_with :: "string \<Rightarrow> string \<Rightarrow> bool" where
  "starts_with s w = (w \<noteq> [] \<and> take (length w) s = w)"

text \<open>Dropping, from the front, every leading sequence of the list.\<close>

function strip :: "string list \<Rightarrow> string \<Rightarrow> string" where
  "strip ws s =
     (case find (starts_with s) ws of
        None \<Rightarrow> s
      | Some w \<Rightarrow> strip ws (drop (length w) s))"
  by pat_completeness auto
termination
proof (relation "measure (\<lambda>(ws, s). length s)")
  show "wf (measure (\<lambda>(ws, s). length s))" by simp
next
  fix ws :: "string list" and s w :: string
  assume "find (starts_with s) ws = Some w"
  then have "starts_with s w" by (auto simp: find_Some_iff)
  then have "w \<noteq> []" and "s \<noteq> []" by (auto simp: starts_with_def)
  then show "((ws, drop (length w) s), (ws, s)) \<in> measure (\<lambda>(ws, s). length s)"
    by simp
qed

definition trim :: "string \<Rightarrow> string" where
  "trim s = rev (strip (map rev white_space) (rev (strip white_space s)))"

text \<open>
  \<^verbatim>\<open>Document.prototype.set\<close>, behind an assignment to a path: the path is marked
  modified when the document is new or the value assigned differs from the value it
  has. \<open>changed\<close> is that condition.
\<close>

definition mark :: "string \<Rightarrow> bool \<Rightarrow> string list \<Rightarrow> string list" where
  "mark path changed mods = (if changed \<and> path \<notin> set mods then mods @ [path] else mods)"

record user =
  user_name :: "string option"
  user_email :: "string option"
  user_role :: "string option"
  user_department :: "string option"
  user_section :: "string option"

record instructor =
  instructor_userId :: object_id
  instructor_maxHoursPerWeek :: int
  instructor_specializations :: "string list"

record student =
  student_userId :: object_id
  student_studentId :: "string option"
  student_department :: "string option"
  student_year :: "string option"
  student_section :: "string option"
  student_enrolledCourses :: "object_id list"

record course =
  course_code :: "string option"
  course_name :: "string option"
  course_department :: "string option"
  course_credits :: "int option"
  course_type :: "string option"
  course_duration :: "int option"
  course_studentsEnrolled :: int
  course_requiredCapacity :: "int option"
  course_specialRequirements :: "string list"
  course_instructorId :: "object_id option"
  course_instructorName :: "string option"
  course_createdAt :: date

record schedule =
  schedule_courseId :: "object_id option"
  schedule_instructorId :: "object_id option"
  schedule_roomId :: "object_id option"
  schedule_dayOfWeek :: "string option"
  schedule_startTime :: "string option"
  schedule_endTime :: "string option"
  schedule_semester :: "string option"
  schedule_year :: "int option"
  schedule_academicYear :: "string option"
  schedule_status :: string
  schedule_conflicts :: "string list"
  schedule_courseCode :: "string option"
  schedule_courseName :: "string option"
  schedule_instructorName :: "string option"
  schedule_roomName :: "string option"
  schedule_building :: "string option"
  schedule_createdAt :: date
  schedule_updatedAt :: date

record enrollment =
  enrollment_studentId :: "object_id option"
  enrollment_courseId :: "object_id option"
  enrollment_scheduleId :: "object_id option"
  enrollment_instructorId :: "object_id option"
  enrollment_yearLevel :: "string option"
  enrollment_section :: "string option"
  enrollment_department :: "string option"
  enrollment_studentName :: "string option"
  enrollment_courseName :: "string option"
  enrollment_courseCode :: "string option"
  enrollment_createdAt :: date

record scheduleRequest =
  request_instructorId :: "object_id option"
  request_courseId :: "object_id option"
  request_scheduleId :: "object_id option"
  request_requestType :: "string option"
  request_roomId :: "object_id option"
  request_date :: "string option"
  request_dayOfWeek :: "string option"
  request_startTime :: "string option"
  request_endTime :: "string option"
  request_semester :: "string option"
  request_year :: "int option"
  request_purpose :: "string option"
  request_notes :: "string option"
  request_conflict_flag :: bool
  request_conflicts :: "string list"
  request_instructorName :: "string option"
  request_courseName :: "string option"
  request_courseCode :: "string option"
  request_roomName :: "string option"
  request_details :: "string option"
  request_status :: string
  request_createdAt :: date
  request_updatedAt :: date

record store =
  online :: bool
  users :: "(object_id \<times> user) list"
  instructors :: "(object_id \<times> instructor) list"
  students :: "(object_id \<times> student) list"
  courses :: "(object_id \<times> course) list"
  schedules :: "(object_id \<times> schedule) list"
  enrollments :: "(object_id \<times> enrollment) list"
  scheduleRequests :: "(object_id \<times> scheduleRequest) list"

text \<open>
  \<^verbatim>\<open>Model.findById\<close>: the query rejects when the store cannot be reached (the
  \<^verbatim>\<open>catch\<close> branch of a hook), and resolves to \<^verbatim>\<open>null\<close> when no document has the id.
\<close>

definition findById :: "store \<Rightarrow> (object_id \<times> 'f) list \<Rightarrow> object_id option \<Rightarrow> error + 'f option" where
  "findById db coll i =
     (if online db
      then Inr (case i of None \<Rightarrow> None | Some k \<Rightarrow> map_of coll k)
      else Inl StoreError)"

text \<open>
  \<^verbatim>\<open>.populate('userId')\<close> replaces the reference by the User document, or by
  \<^verbatim>\<open>null\<close> when there is none.
\<close>

definition populate_userId :: "store \<Rightarrow> object_id \<Rightarrow> user option" where
  "populate_userId db uid = map_of (users db) uid"

text \<open>
  What \<^verbatim>\<open>save\<close> does to the collection once validation and the hooks have passed.
  A new document is inserted whole (MongoDB refuses a second document with its
  \<^verbatim>\<open>_id\<close>). For another document only the modified paths are sent: the stored
  document with its \<^verbatim>\<open>_id\<close> gets the values of those paths and keeps the rest;
  \<open>set_paths\<close> is the schema's way of writing a list of paths of one record into
  another. The \<^verbatim>\<open>unique\<close> indexes of the schema are given as the list of keys that
  must differ from those of every other stored document.
\<close>

fun replace_doc :: "object_id \<Rightarrow> 'f \<Rightarrow> (object_id \<times> 'f) list \<Rightarrow> (object_id \<times> 'f) list" where
  "replace_doc i f [] = []"
| "replace_doc i f ((j, g) # xs) = (if j = i then (i, f) # xs else (j, g) # replace_doc i f xs)"

definition violates :: "('f \<Rightarrow> 'k) \<Rightarrow> object_id \<Rightarrow> 'f \<Rightarrow> (object_id \<times> 'f) list \<Rightarrow> bool" where
  "violates key i f coll = list_ex (\<lambda>(j, g). j \<noteq> i \<and> key g = key f) coll"

definition persist ::
  "('f \<Rightarrow> 'k) list \<Rightarrow> (string list \<Rightarrow> 'f \<Rightarrow> 'f \<Rightarrow> 'f) \<Rightarrow> 'f document \<Rightarrow>
   (object_id \<times> 'f) list \<Rightarrow> error + (object_id \<times> 'f) list" where
  "persist unique_keys set_paths d coll =
     (if isNew d then
        (if list_ex (\<lambda>key. violates key (doc_id d) (doc d) coll) unique_keys
           then Inl (DuplicateKeyError ''unique'')
         else if doc_id d \<in> fst ` set coll then Inl (DuplicateKeyError ''_id'')
         else Inr (coll @ [(doc_id d, doc d)]))
      else
        (case map_of coll (doc_id d) of
           None \<Rightarrow> Inl DocumentNotFoundError
         | Some stored \<Rightarrow>
             (if list_ex (\<lambda>key. violates key (doc_id d)
                            (set_paths (modifiedPaths d) (doc d) stored) coll) unique_keys
                then Inl (DuplicateKeyError ''unique'')
              else Inr (replace_doc (doc_id d) (set_paths (modifiedPaths d) (doc d) stored) coll))))"

text \<open>The first path of the schema that fails its validators.\<close>

fun first_failure :: "(bool \<times> string) list \<Rightarrow> error option" where
  "first_failure [] = None"
| "first_failure ((ok, path) # rest) = (if ok then first_failure rest else Some (ValidationError path))"

definition required_str :: "string option \<Rightarrow> bool" where
  "required_str v = (case v of None \<Rightarrow> False | Some s \<Rightarrow> s \<noteq> [])"

definition required_min :: "int \<Rightarrow> int option \<Rightarrow> bool" where
  "required_min lo v = (case v of None \<Rightarrow> False | Some n \<Rightarrow> lo \<le> n)"

definition enum_opt :: "string list \<Rightarrow> string option \<Rightarrow> bool" where
  "enum_opt allowed v = (case v of None \<Rightarrow> True | Some s \<Rightarrow> s \<in> set allowed)"

section \<open>Course\<close>

definition Course_validate :: "course \<Rightarrow> error option" where
  "Course_validate c = first_failure
     [(required_str (course_code c), ''code''),
      (required_str (course_name c), ''name''),
      (required_str (course_department c), ''department''),
      (required_min 1 (course_credits c), ''credits''),
      (required_str (course_type c) \<and> enum_opt [''lecture'', ''lab'', ''seminar''] (course_type c), ''type''),
      (required_min 30 (course_duration c), ''duration''),
      (0 \<le> course_studentsEnrolled c, ''studentsEnrolled''),
      (required_min 1 (course_requiredCapacity c), ''requiredCapacity'')]"

text \<open>The paths of a Course, written from one record into another.\<close>

definition Course_set_paths :: "string list \<Rightarrow> course \<Rightarrow> course \<Rightarrow> course" where
  "Course_set_paths paths src dst =
     \<lparr>course_code = (if ''code'' \<in> set paths then course_code src else course_code dst),
      course_name = (if ''name'' \<in> set paths then course_name src else course_name dst),
      course_department =
        (if ''department'' \<in> set paths then course_department src else course_department dst),
      course_credits = (if ''credits'' \<in> set paths then course_credits src else course_credits dst),
      course_type = (if ''type'' \<in> set paths then course_type src else course_type dst),
      course_duration = (if ''duration'' \<in> set paths then course_duration src else course_duration dst),
      course_studentsEnrolled =
        (if ''studentsEnrolled'' \<in> set paths then course_studentsEnrolled src
         else course_studentsEnrolled dst),
      course_requiredCapacity =
        (if ''requiredCapacity'' \<in> set paths then course_requiredCapacity src
         else course_requiredCapacity dst),
      course_specialRequirements =
        (if ''specialRequirements'' \<in> set paths then course_specialRequirements src
         else course_specialRequirements dst),
      course_instructorId =
        (if ''instructorId'' \<in> set paths then course_instructorId src else course_instructorId dst),
      course_instructorName =
        (if ''instructorName'' \<in> set paths then course_instructorName src
         else course_instructorName dst),
      course_createdAt = (if ''createdAt'' \<in> set paths then course_createdAt src else course_createdAt dst)\<rparr>"

text \<open>\<^verbatim>\<open>this.instructorName = v\<close>\<close>

definition set_instructorName :: "string option \<Rightarrow> course document \<Rightarrow> course document" where
  "set_instructorName v this =
     this\<lparr>doc := (doc this)\<lparr>course_instructorName := v\<rparr>,
          modifiedPaths := mark ''instructorName'' (isNew this \<or> course_instructorName (doc this) \<noteq> v) (modifiedPaths this)\<rparr>"

text \<open>
  \<^verbatim>\<open>courseSchema.pre('save')\<close>: with an instructorId, the Instructor is looked up
  and its user populated, and instructorName is assigned (through the \<^verbatim>\<open>trim\<close>
  setter of the path) only when the instructor, its user and a truthy name are all
  there; without an instructorId, instructorName is set to \<^verbatim>\<open>undefined\<close>. A rejected
  lookup goes to \<^verbatim>\<open>next(err)\<close>.
\<close>

definition Course_pre_save :: "store \<Rightarrow> course document \<Rightarrow> error + course document" where
  "Course_pre_save db this =
     (case course_instructorId (doc this) of
        Some iid \<Rightarrow>
          (case findById db (instructors db) (Some iid) of
             Inl err \<Rightarrow> Inl err
           | Inr None \<Rightarrow> Inr this
           | Inr (Some instr) \<Rightarrow>
               (case populate_userId db (instructor_userId instr) of
                  None \<Rightarrow> Inr this
                | Some u \<Rightarrow>
                    (if truthy (user_name u)
                     then Inr (set_instructorName (map_option trim (user_name u)) this)
                     else Inr this)))
      | None \<Rightarrow> Inr (set_instructorName None this))"

text \<open>
  \<^verbatim>\<open>course.save()\<close>: validation, the pre-save hook, then the write under the
  unique index on \<^verbatim>\<open>code\<close>.
\<close>

definition Course_save :: "store \<Rightarrow> course document \<Rightarrow> error + store" where
  "Course_save db this =
     (case Course_validate (doc this) of
        Some err \<Rightarrow> Inl err
      | None \<Rightarrow>
          (case Course_pre_save db this of
             Inl err \<Rightarrow> Inl err
           | Inr this' \<Rightarrow>
               (if \<not> online db then Inl StoreError
                else case persist [course_code] Course_set_paths this' (courses db) of
                  Inl err \<Rightarrow> Inl err
                | Inr coll \<Rightarrow> Inr (db\<lparr>courses := coll\<rparr>))))"

text \<open>The name a Course's instructorId leads to: Instructor, then its User, then the name.\<close>

definition linked_user_name :: "store \<Rightarrow> object_id \<Rightarrow> string option" where
  "linked_user_name db iid =
     (case map_of (instructors db) iid of
        None \<Rightarrow> None
      | Some instr \<Rightarrow>
          (case map_of (users db) (instructor_userId instr) of
             None \<Rightarrow> None
           | Some u \<Rightarrow> user_name u))"

text \<open>
  A Course document in step with the store: it is new, or the stored record with the
  values of its modified paths is the document, as it is for a document that was read
  from the store and then assigned to.
\<close>

definition Course_in_step :: "store \<Rightarrow> course document \<Rightarrow> bool" where
  "Course_in_step db this =
     (isNew this \<or>
      (case map_of (courses db) (doc_id this) of
         None \<Rightarrow> False
       | Some stored \<Rightarrow> Course_set_paths (modifiedPaths this) (doc this) stored = doc this))"

text \<open>The Course save with the hook left out: validation and the write of the document as it is.\<close>

definition Course_write :: "store \<Rightarrow> course document \<Rightarrow> error + store" where
  "Course_write db this =
     (case Course_validate (doc this) of
        Some err \<Rightarrow> Inl err
      | None \<Rightarrow>
          (if \<not> online db then Inl StoreError
           else case persist [course_code] Course_set_paths this (courses db) of
             Inl err \<Rightarrow> Inl err
           | Inr coll \<Rightarrow> Inr (db\<lparr>courses := coll\<rparr>)))"

section \<open>Schedule\<close>

text \<open>
  What a caller passes to \<^verbatim>\<open>new Schedule({...})\<close>: the paths with a schema default
  (status, createdAt, updatedAt) may be left out.
\<close>

record schedule_init =
  init_courseId :: "object_id option"
  init_instructorId :: "object_id option"
  init_roomId :: "object_id option"
  init_dayOfWeek :: "string option"
  init_startTime :: "string option"
  init_endTime :: "string option"
  init_semester :: "string option"
  init_year :: "int option"
  init_academicYear :: "string option"
  init_status :: "string option"
  init_conflicts :: "string list"
  init_courseCode :: "string option"
  init_courseName :: "string option"
  init_instructorName :: "string option"
  init_roomName :: "string option"
  init_building :: "string option"
  init_createdAt :: "date option"
  init_updatedAt :: "date option"

text \<open>
  Constructing the document applies the schema defaults: status \<^verbatim>\<open>'published'\<close>,
  createdAt and updatedAt \<^verbatim>\<open>Date.now\<close>.
\<close>

definition new_Schedule :: "object_id \<Rightarrow> date \<Rightarrow> schedule_init \<Rightarrow> schedule document" where
  "new_Schedule oid now init =
     \<lparr>doc_id = oid, isNew = True, modifiedPaths = [],
      doc = \<lparr>schedule_courseId = init_courseId init,
             schedule_instructorId = init_instructorId init,
             schedule_roomId = init_roomId init,
             schedule_dayOfWeek = init_dayOfWeek init,
             schedule_startTime = init_startTime init,
             schedule_endTime = init_endTime init,
             schedule_semester = init_semester init,
             schedule_year = init_year init,
             schedule_academicYear = init_academicYear init,
             schedule_status = (case init_status init of None \<Rightarrow> ''published'' | Some st \<Rightarrow> st),
             schedule_conflicts = init_conflicts init,
             schedule_courseCode = init_courseCode init,
             schedule_courseName = init_courseName init,
             schedule_instructorName = init_instructorName init,
             schedule_roomName = init_roomName init,
             schedule_building = init_building init,
             schedule_createdAt = (case init_createdAt init of None \<Rightarrow> now | Some t \<Rightarrow> t),
             schedule_updatedAt = (case init_updatedAt init of None \<Rightarrow> now | Some t \<Rightarrow> t)\<rparr>\<rparr>"

definition Schedule_validate :: "schedule \<Rightarrow> error option" where
  "Schedule_validate s = first_failure
     [(schedule_courseId s \<noteq> None, ''courseId''),
      (schedule_instructorId s \<noteq> None, ''instructorId''),
      (schedule_roomId s \<noteq> None, ''roomId''),
      (required_str (schedule_dayOfWeek s) \<and>
         enum_opt [''Monday'', ''Tuesday'', ''Wednesday'', ''Thursday'', ''Friday'', ''Saturday'', ''Sunday'']
           (schedule_dayOfWeek s), ''dayOfWeek''),
      (required_str (schedule_startTime s), ''startTime''),
      (required_str (schedule_endTime s), ''endTime''),
      (required_str (schedule_semester s) \<and>
         enum_opt [''First Term'', ''Second Term'', ''Third Term''] (schedule_semester s), ''semester''),
      (schedule_year s \<noteq> None, ''year''),
      (required_str (schedule_academicYear s), ''academicYear''),
      (schedule_status s \<in> set [''draft'', ''published'', ''conflict'', ''canceled''], ''status'')]"

text \<open>The paths of a Schedule, written from one record into another.\<close>

definition Schedule_set_paths :: "string list \<Rightarrow> schedule \<Rightarrow> schedule \<Rightarrow> schedule" where
  "Schedule_set_paths paths src dst =
     \<lparr>schedule_courseId = (if ''courseId'' \<in> set paths then schedule_courseId src else schedule_courseId dst),
      schedule_instructorId =
        (if ''instructorId'' \<in> set paths then schedule_instructorId src else schedule_instructorId dst),
      schedule_roomId = (if ''roomId'' \<in> set paths then schedule_roomId src else schedule_roomId dst),
      schedule_dayOfWeek =
        (if ''dayOfWeek'' \<in> set paths then schedule_dayOfWeek src else schedule_dayOfWeek dst),
      schedule_startTime =
        (if ''startTime'' \<in> set paths then schedule_startTime src else schedule_startTime dst),
      schedule_endTime = (if ''endTime'' \<in> set paths then schedule_endTime src else schedule_endTime dst),
      schedule_semester = (if ''semester'' \<in> set paths then schedule_semester src else schedule_semester dst),
      schedule_year = (if ''year'' \<in> set paths then schedule_year src else schedule_year dst),
      schedule_academicYear =
        (if ''academicYear'' \<in> set paths then schedule_academicYear src else schedule_academicYear dst),
      schedule_status = (if ''status'' \<in> set paths then schedule_status src else schedule_status dst),
      schedule_conflicts =
        (if ''conflicts'' \<in> set paths then schedule_conflicts src else schedule_conflicts dst),
      schedule_courseCode =
        (if ''courseCode'' \<in> set paths then schedule_courseCode src else schedule_courseCode dst),
      schedule_courseName =
        (if ''courseName'' \<in> set paths then schedule_courseName src else schedule_courseName dst),
      schedule_instructorName =
        (if ''instructorName'' \<in> set paths then schedule_instructorName src
         else schedule_instructorName dst),
      schedule_roomName = (if ''roomName'' \<in> set paths then schedule_roomName src else schedule_roomName dst),
      schedule_building = (if ''building'' \<in> set paths then schedule_building src else schedule_building dst),
      schedule_createdAt =
        (if ''createdAt'' \<in> set paths then schedule_createdAt src else schedule_createdAt dst),
      schedule_updatedAt =
        (if ''updatedAt'' \<in> set paths then schedule_updatedAt src else schedule_updatedAt dst)\<rparr>"

text \<open>\<^verbatim>\<open>scheduleSchema.pre('save')\<close>: \<^verbatim>\<open>this.updatedAt = new Date(); next();\<close>\<close>

definition Schedule_pre_save :: "date \<Rightarrow> schedule document \<Rightarrow> schedule document" where
  "Schedule_pre_save now this =
     this\<lparr>doc := (doc this)\<lparr>schedule_updatedAt := now\<rparr>,
          modifiedPaths := mark ''updatedAt'' (isNew this \<or> schedule_updatedAt (doc this) \<noteq> now) (modifiedPaths this)\<rparr>"

text \<open>\<^verbatim>\<open>schedule.save()\<close>: validation, the hook, the write. The schema has no unique index.\<close>

definition Schedule_save :: "date \<Rightarrow> store \<Rightarrow> schedule document \<Rightarrow> error + store" where
  "Schedule_save now db this =
     (case Schedule_validate (doc this) of
        Some err \<Rightarrow> Inl err
      | None \<Rightarrow>
          (if \<not> online db then Inl StoreError
           else case persist ([] :: (schedule \<Rightarrow> unit) list) Schedule_set_paths (Schedule_pre_save now this)
                  (schedules db) of
             Inl err \<Rightarrow> Inl err
           | Inr coll \<Rightarrow> Inr (db\<lparr>schedules := coll\<rparr>)))"


section \<open>Enrollment\<close>

definition Enrollment_validate :: "enrollment \<Rightarrow> error option" where
  "Enrollment_validate e = first_failure
     [(enrollment_studentId e \<noteq> None, ''studentId''),
      (enrollment_courseId e \<noteq> None, ''courseId''),
      (enum_opt [''1'', ''2'', ''3'', ''4''] (enrollment_yearLevel e), ''yearLevel'')]"

text \<open>The paths of an Enrollment, written from one record into another.\<close>

definition Enrollment_set_paths :: "string list \<Rightarrow> enrollment \<Rightarrow> enrollment \<Rightarrow> enrollment" where
  "Enrollment_set_paths paths src dst =
     \<lparr>enrollment_studentId =
        (if ''studentId'' \<in> set paths then enrollment_studentId src else enrollment_studentId dst),
      enrollment_courseId =
        (if ''courseId'' \<in> set paths then enrollment_courseId src else enrollment_courseId dst),
      enrollment_scheduleId =
        (if ''scheduleId'' \<in> set paths then enrollment_scheduleId src else enrollment_scheduleId dst),
      enrollment_instructorId =
        (if ''instructorId'' \<in> set paths then enrollment_instructorId src
         else enrollment_instructorId dst),
      enrollment_yearLevel =
        (if ''yearLevel'' \<in> set paths then enrollment_yearLevel src else enrollment_yearLevel dst),
      enrollment_section =
        (if ''section'' \<in> set paths then enrollment_section src else enrollment_section dst),
      enrollment_department =
        (if ''department'' \<in> set paths then enrollment_department src else enrollment_department dst),
      enrollment_studentName =
        (if ''studentName'' \<in> set paths then enrollment_studentName src else enrollment_studentName dst),
      enrollment_courseName =
        (if ''courseName'' \<in> set paths then enrollment_courseName src else enrollment_courseName dst),
      enrollment_courseCode =
        (if ''courseCode'' \<in> set paths then enrollment_courseCode src else enrollment_courseCode dst),
      enrollment_createdAt =
        (if ''createdAt'' \<in> set paths then enrollment_createdAt src else enrollment_createdAt dst)\<rparr>"

text \<open>
  The assignments of the hook, each marking its path when the document is new or the
  value changes.
\<close>

definition set_student_fields :: "string option \<Rightarrow> string option \<Rightarrow> enrollment document \<Rightarrow> enrollment document" where
  "set_student_fields name dept this =
     this\<lparr>doc := (doc this)\<lparr>enrollment_studentName := name, enrollment_department := dept\<rparr>,
          modifiedPaths :=
            mark ''department'' (isNew this \<or> enrollment_department (doc this) \<noteq> dept)
              (mark ''studentName'' (isNew this \<or> enrollment_studentName (doc this) \<noteq> name) (modifiedPaths this))\<rparr>"

definition set_course_fields :: "string option \<Rightarrow> string option \<Rightarrow> enrollment document \<Rightarrow> enrollment document" where
  "set_course_fields name code this =
     this\<lparr>doc := (doc this)\<lparr>enrollment_courseName := name, enrollment_courseCode := code\<rparr>,
          modifiedPaths :=
            mark ''courseCode'' (isNew this \<or> enrollment_courseCode (doc this) \<noteq> code)
              (mark ''courseName'' (isNew this \<or> enrollment_courseName (doc this) \<noteq> name) (modifiedPaths this))\<rparr>"

text \<open>
  The first half of \<^verbatim>\<open>enrollmentSchema.pre('save')\<close>: the Student is looked up and
  its user populated; with both there, studentName and department are assigned.
\<close>

definition populate_student :: "store \<Rightarrow> enrollment document \<Rightarrow> error + enrollment document" where
  "populate_student db this =
     (case findById db (students db) (enrollment_studentId (doc this)) of
        Inl err \<Rightarrow> Inl err
      | Inr None \<Rightarrow> Inr this
      | Inr (Some st) \<Rightarrow>
          (case populate_userId db (student_userId st) of
             None \<Rightarrow> Inr this
           | Some u \<Rightarrow>
               Inr (set_student_fields (user_name u)
                      (or_else (student_department st)
                         (or_else (user_department u) (enrollment_department (doc this))))
                      this)))"

text \<open>The second half: the Course is looked up; when there, courseName and courseCode are assigned.\<close>

definition populate_course :: "store \<Rightarrow> enrollment document \<Rightarrow> error + enrollment document" where
  "populate_course db this =
     (case findById db (courses db) (enrollment_courseId (doc this)) of
        Inl err \<Rightarrow> Inl err
      | Inr None \<Rightarrow> Inr this
      | Inr (Some c) \<Rightarrow>
          Inr (set_course_fields (course_name c) (course_code c) this))"

definition Enrollment_pre_save :: "store \<Rightarrow> enrollment document \<Rightarrow> error + enrollment document" where
  "Enrollment_pre_save db this =
     (if isNew this \<or> isModified this ''studentId'' \<or> isModified this ''courseId''
      then (case populate_student db this of
              Inl err \<Rightarrow> Inl err
            | Inr this' \<Rightarrow> populate_course db this')
      else Inr this)"

text \<open>
  \<^verbatim>\<open>enrollment.save()\<close>: validation, the hook, the write. \<^verbatim>\<open>enrollmentSchema\<close>
  declares no \<^verbatim>\<open>unique\<close> path and no index, so the list of unique keys is empty.
\<close>

definition Enrollment_save :: "store \<Rightarrow> enrollment document \<Rightarrow> error + store" where
  "Enrollment_save db this =
     (case Enrollment_validate (doc this) of
        Some err \<Rightarrow> Inl err
      | None \<Rightarrow>
          (case Enrollment_pre_save db this of
             Inl err \<Rightarrow> Inl err
           | Inr this' \<Rightarrow>
               (if \<not> online db then Inl StoreError
                else case persist ([] :: (enrollment \<Rightarrow> unit) list) Enrollment_set_paths this'
                       (enrollments db) of
                  Inl err \<Rightarrow> Inl err
                | Inr coll \<Rightarrow> Inr (db\<lparr>enrollments := coll\<rparr>))))"

text \<open>
  The user that a Student reference of an Enrollment leads to, if the Student and its
  User both exist.
\<close>

definition linked_student_user :: "store \<Rightarrow> object_id option \<Rightarrow> user option" where
  "linked_student_user db sid =
     (case sid of
        None \<Rightarrow> None
      | Some k \<Rightarrow>
          (case map_of (students db) k of
             None \<Rightarrow> None
           | Some st \<Rightarrow> map_of (users db) (student_userId st)))"

text \<open>The Course that a Course reference of an Enrollment leads to, if it exists.\<close>

definition linked_course :: "store \<Rightarrow> object_id option \<Rightarrow> course option" where
  "linked_course db cid = (case cid of None \<Rightarrow> None | Some k \<Rightarrow> map_of (courses db) k)"

text \<open>The Enrollment save with the hook left out.\<close>

definition Enrollment_write :: "store \<Rightarrow> enrollment document \<Rightarrow> error + store" where
  "Enrollment_write db this =
     (case Enrollment_validate (doc this) of
        Some err \<Rightarrow> Inl err
      | None \<Rightarrow>
          (if \<not> online db then Inl StoreError
           else case persist ([] :: (enrollment \<Rightarrow> unit) list) Enrollment_set_paths this
                  (enrollments db) of
             Inl err \<Rightarrow> Inl err
           | Inr coll \<Rightarrow> Inr (db\<lparr>enrollments := coll\<rparr>)))"

text \<open>The stored Enrollment records of a (studentId, scheduleId) pair.\<close>

definition enrollments_of :: "store \<Rightarrow> object_id \<Rightarrow> object_id \<Rightarrow> (object_id \<times> enrollment) list" where
  "enrollments_of db sid schid =
     filter (\<lambda>(i, e). enrollment_studentId e = Some sid \<and> enrollment_scheduleId e = Some schid)
       (enrollments db)"

section \<open>ScheduleRequest\<close>

text \<open>
  \<^verbatim>\<open>scheduleRequestSchema\<close> has validators and defaults, and neither a hook nor an
  index. No validator relates status to conflict_flag.
\<close>

definition ScheduleRequest_validate :: "scheduleRequest \<Rightarrow> error option" where
  "ScheduleRequest_validate r = first_failure
     [(request_instructorId r \<noteq> None, ''instructorId''),
      (required_str (request_requestType r) \<and>
         enum_opt [''room_change'', ''time_change'', ''schedule_conflict''] (request_requestType r),
       ''requestType''),
      (enum_opt [''make-up class'', ''quiz'', ''unit test''] (request_purpose r), ''purpose''),
      (required_str (request_details r), ''details''),
      (request_status r \<in> set [''pending'', ''under_review'', ''approved'', ''rejected''], ''status'')]"

section \<open>Operations the sources do not contain\<close>

subsection \<open>Enrollment Consistency Guard\<close>

text \<open>
  Modelled from the spec: \<^verbatim>\<open>enroll(studentId, scheduleId)\<close> of section 4.4, which is
  not among the sources (only the Enrollment schema and its caller in the admin page
  are). It fails with a duplicate error if an Enrollment already exists for the pair,
  creating nothing; otherwise it creates the Enrollment (through the save of the
  sources, which fills the denormalized fields) and increments the
  \<^verbatim>\<open>studentsEnrolled\<close> counter of the owning Course. The course and the instructor
  of the new record are those of the Schedule.
\<close>

definition enrolled :: "store \<Rightarrow> object_id \<Rightarrow> object_id \<Rightarrow> bool" where
  "enrolled db sid schid = (enrollments_of db sid schid \<noteq> [])"

text \<open>
  Modelled from the spec: the Enrollment that \<^verbatim>\<open>enroll\<close> creates (section 4.4);
  the operation is not among the sources. Its course and instructor are those of the
  Schedule; its denormalized fields are left to the save.
\<close>

definition new_Enrollment :: "store \<Rightarrow> object_id \<Rightarrow> date \<Rightarrow> object_id \<Rightarrow> object_id \<Rightarrow> enrollment document" where
  "new_Enrollment db oid now sid schid =
     \<lparr>doc_id = oid, isNew = True, modifiedPaths = [],
      doc = \<lparr>enrollment_studentId = Some sid,
             enrollment_courseId = (case map_of (schedules db) schid of
                                      None \<Rightarrow> None | Some s \<Rightarrow> schedule_courseId s),
             enrollment_scheduleId = Some schid,
             enrollment_instructorId = (case map_of (schedules db) schid of
                                          None \<Rightarrow> None | Some s \<Rightarrow> schedule_instructorId s),
             enrollment_yearLevel = None,
             enrollment_section = None,
             enrollment_department = None,
             enrollment_studentName = None,
             enrollment_courseName = None,
             enrollment_courseCode = None,
             enrollment_createdAt = now\<rparr>\<rparr>"

text \<open>
  Modelled from the spec: the increment of the single \<^verbatim>\<open>studentsEnrolled\<close> counter
  of the owning Course on a successful \<^verbatim>\<open>enroll\<close> (section 4.4), not among the sources.
\<close>

fun increment_studentsEnrolled :: "object_id option \<Rightarrow> (object_id \<times> course) list \<Rightarrow> (object_id \<times> course) list" where
  "increment_studentsEnrolled None cs = cs"
| "increment_studentsEnrolled (Some k) cs =
     map (\<lambda>(i, c). if i = k then (i, c\<lparr>course_studentsEnrolled := course_studentsEnrolled c + 1\<rparr>) else (i, c)) cs"

text \<open>
  Modelled from the spec: \<^verbatim>\<open>enroll(studentId, scheduleId)\<close> (section 4.4), not among
  the sources: the duplicate check, then the creation and the counter.
\<close>

definition enroll :: "store \<Rightarrow> object_id \<Rightarrow> date \<Rightarrow> object_id \<Rightarrow> object_id \<Rightarrow> error + store" where
  "enroll db oid now sid schid =
     (if \<not> online db then Inl StoreError
      else if enrolled db sid schid then Inl DuplicateEnrollmentError
      else case Enrollment_save db (new_Enrollment db oid now sid schid) of
        Inl err \<Rightarrow> Inl err
      | Inr db' \<Rightarrow>
          Inr (db'\<lparr>courses :=
            increment_studentsEnrolled (enrollment_courseId (doc (new_Enrollment db oid now sid schid)))
              (courses db')\<rparr>))"

subsection \<open>Conflict Detector\<close>

text \<open>
  Modelled from the spec: \<^verbatim>\<open>detectConflicts(candidate, existingSet)\<close> of section 4.2,
  which is not among the sources. A time-bounded resource claim has an identity, a day
  (dayOfWeek, or the date of a date-specific request), a window in any linearly ordered
  time, a room, an instructor, the students it binds, a status and a creation time.
\<close>

record 't claim =
  claim_id :: object_id
  claim_day :: string
  claim_start :: 't
  claim_end :: 't
  claim_roomId :: object_id
  claim_instructorId :: object_id
  claim_students :: "object_id list"
  claim_status :: string
  claim_createdAt :: date

datatype conflict = RoomConflict object_id | InstructorConflict object_id | StudentConflict object_id

text \<open>
  Modelled from the spec: the overlap of two time windows (section 4.2), not among the
  sources: the same day, and half-open interval overlap.
\<close>

definition overlaps :: "('t::linorder) claim \<Rightarrow> 't claim \<Rightarrow> bool" where
  "overlaps candidate existing =
     (claim_day candidate = claim_day existing \<and>
      claim_start candidate < claim_end existing \<and>
      claim_start existing < claim_end candidate)"

text \<open>
  Modelled from the spec: the records compared against (section 4.2), not among the
  sources: only published Schedules and approved ScheduleRequests.
\<close>

definition counts :: "'t claim \<Rightarrow> bool" where
  "counts e = (claim_status e = ''published'' \<or> claim_status e = ''approved'')"

text \<open>
  Modelled from the spec: the existing records that count, are another record than the
  candidate and overlap it, by creation time ascending (section 4.2); not among the sources.
\<close>

definition comparison_set :: "('t::linorder) claim \<Rightarrow> 't claim list \<Rightarrow> 't claim list" where
  "comparison_set candidate existingSet =
     sort_key claim_createdAt
       (filter (\<lambda>e. counts e \<and> claim_id e \<noteq> claim_id candidate \<and> overlaps candidate e) existingSet)"

text \<open>
  Modelled from the spec: an enrolled student of the candidate already holds the
  existing claim (the student class of section 4.2); not among the sources.
\<close>

definition common_student :: "'t claim \<Rightarrow> 't claim \<Rightarrow> bool" where
  "common_student candidate existing =
     list_ex (\<lambda>s. s \<in> set (claim_students existing)) (claim_students candidate)"

text \<open>
  Modelled from the spec: \<^verbatim>\<open>detectConflicts\<close> (section 4.2), not among the sources:
  the three classes, in the order room, instructor, student, each by creation time; the
  student class only for an enrollment-affecting change.
\<close>

definition detectConflicts :: "bool \<Rightarrow> ('t::linorder) claim \<Rightarrow> 't claim list \<Rightarrow> conflict list" where
  "detectConflicts enrollment_affecting candidate existingSet =
     map (\<lambda>e. RoomConflict (claim_id e))
       (filter (\<lambda>e. claim_roomId e = claim_roomId candidate) (comparison_set candidate existingSet)) @
     map (\<lambda>e. InstructorConflict (claim_id e))
       (filter (\<lambda>e. claim_instructorId e = claim_instructorId candidate) (comparison_set candidate existingSet)) @
     (if enrollment_affecting
      then map (\<lambda>e. StudentConflict (claim_id e))
             (filter (common_student candidate) (comparison_set candidate existingSet))
      else [])"

text \<open>
  Modelled from the spec: what two claims must share for one of the three classes of
  section 4.2 to apply; not among the sources.
\<close>

definition shares :: "bool \<Rightarrow> 't claim \<Rightarrow> 't claim \<Rightarrow> bool" where
  "shares enrollment_affecting candidate existing =
     (claim_roomId existing = claim_roomId candidate \<or>
      claim_instructorId existing = claim_instructorId candidate \<or>
      (enrollment_affecting \<and> common_student candidate existing))"

subsection \<open>Request Approval Workflow\<close>

text \<open>
  Modelled from the spec: \<^verbatim>\<open>transitionRequest(RequestId, targetState)\<close> of section 4.3,
  which is not among the sources (only the ScheduleRequest schema is). The conflict
  check of the request against the store and the Schedule mutation of an approved
  room or time change are parameters. The result is what the caller receives and the
  store afterwards.
\<close>





section \<open>Admin enrollment page\<close>

subsection \<open>Enrollment counts of \<^verbatim>\<open>loadEnrolledStudents\<close>\<close>

text \<open>
  The responses are untyped JSON. A reference in them is absent, an id string, or a
  populated object (with an identity of its own, and possibly \<^verbatim>\<open>_id\<close> and \<^verbatim>\<open>id\<close>).
\<close>

datatype jsref = Undefined | IdString string | Populated nat "string option" "string option"

fun js_truthy :: "jsref \<Rightarrow> bool" where
  "js_truthy Undefined = False"
| "js_truthy (IdString s) = (s \<noteq> [])"
| "js_truthy (Populated a i j) = True"

fun prop__id :: "jsref \<Rightarrow> string option" where
  "prop__id (Populated a i j) = i"
| "prop__id v = None"

fun prop_id :: "jsref \<Rightarrow> string option" where
  "prop_id (Populated a i j) = j"
| "prop_id v = None"

record raw_enrollment =
  e_scheduleId :: jsref
  e_schedule :: jsref

record raw_schedule =
  s__id :: "string option"
  s_id :: "string option"
  s_enrolledCount :: "nat option"

text \<open>A key of the JS Map: a string by value, an object by identity.\<close>

datatype map_key = KeyString string | KeyObject nat

text \<open>
  \<^verbatim>\<open>const schedule = e.scheduleId || e.schedule || {};\<close>
  \<^verbatim>\<open>const scheduleId = schedule._id || schedule.id || e.scheduleId;\<close>
  The result is \<open>None\<close> when the value is falsy. The empty object has neither
  \<^verbatim>\<open>_id\<close> nor \<^verbatim>\<open>id\<close>, and is reached only when \<^verbatim>\<open>e.scheduleId\<close> is falsy.
\<close>

definition tracked_scheduleId :: "raw_enrollment \<Rightarrow> map_key option" where
  "tracked_scheduleId e =
     (let schedule = (if js_truthy (e_scheduleId e) then e_scheduleId e
                      else if js_truthy (e_schedule e) then e_schedule e
                      else Populated 0 None None)
      in if truthy (prop__id schedule) then map_option KeyString (prop__id schedule)
         else if truthy (prop_id schedule) then map_option KeyString (prop_id schedule)
         else (case e_scheduleId e of
                 Undefined \<Rightarrow> None
               | IdString s \<Rightarrow> (if s = [] then None else Some (KeyString s))
               | Populated a i j \<Rightarrow> Some (KeyObject a)))"

text \<open>
  \<^verbatim>\<open>if (scheduleId) { const currentCount = enrollmentsBySchedule.get(scheduleId) || 0;\<close>
  \<^verbatim>\<open>enrollmentsBySchedule.set(scheduleId, currentCount + 1); }\<close>
\<close>

definition track :: "(map_key \<rightharpoonup> nat) \<Rightarrow> raw_enrollment \<Rightarrow> (map_key \<rightharpoonup> nat)" where
  "track m e =
     (case tracked_scheduleId e of
        None \<Rightarrow> m
      | Some k \<Rightarrow> m(k \<mapsto> (case m k of None \<Rightarrow> 0 | Some c \<Rightarrow> c) + 1))"

definition enrollmentsBySchedule :: "raw_enrollment list \<Rightarrow> (map_key \<rightharpoonup> nat)" where
  "enrollmentsBySchedule enrollmentsList = foldl track Map.empty enrollmentsList"

text \<open>\<^verbatim>\<open>const scheduleId = s._id || s.id;\<close>\<close>

definition summary_id :: "raw_schedule \<Rightarrow> string option" where
  "summary_id s = or_else (s__id s) (s_id s)"

text \<open>\<^verbatim>\<open>enrolledCount: enrollmentsBySchedule.get(scheduleId) || s.enrolledCount || 0\<close>\<close>

definition enrolledCount :: "(map_key \<rightharpoonup> nat) \<Rightarrow> raw_schedule \<Rightarrow> nat" where
  "enrolledCount m s =
     (let tracked = (case summary_id s of None \<Rightarrow> None | Some k \<Rightarrow> m (KeyString k))
      in case tracked of
           Some (Suc c) \<Rightarrow> Suc c
         | _ \<Rightarrow> (case s_enrolledCount s of Some (Suc n) \<Rightarrow> Suc n | _ \<Rightarrow> 0))"

text \<open>The fetched Enrollment records that reference the schedule shown under an id.\<close>

definition referencing :: "raw_enrollment list \<Rightarrow> string \<Rightarrow> raw_enrollment list" where
  "referencing enrollmentsList k = filter (\<lambda>e. tracked_scheduleId e = Some (KeyString k)) enrollmentsList"

subsection \<open>The enrolled-students table\<close>









text \<open>
  What \<open>localeCompare\<close> is as a comparison of any two strings: zero on a string and
  itself, of opposite signs in the two directions, and transitive. It may be zero on
  two different strings.
\<close>

definition consistent :: "(string \<Rightarrow> string \<Rightarrow> int) \<Rightarrow> bool" where
  "consistent lc =
     ((\<forall>x. lc x x = 0) \<and>
      (\<forall>x y. (lc x y < 0) = (0 < lc y x)) \<and>
      (\<forall>x y z. \<not> (lc x y \<le> 0 \<and> lc y z \<le> 0 \<and> \<not> lc x z \<le> 0)))"




text \<open>A comparison to run the table on: that of the character codes, first difference first.\<close>

fun code_compare :: "string \<Rightarrow> string \<Rightarrow> int" where
  "code_compare [] [] = 0"
| "code_compare [] (y # ys) = - 1"
| "code_compare (x # xs) [] = 1"
| "code_compare (x # xs) (y # ys) =
     (if (of_char x :: nat) < of_char y then - 1
      else if (of_char y :: nat) < of_char x then 1
      else code_compare xs ys)"

text \<open>
  A comparison that is zero on two canonically equivalent strings, as
  \<^verbatim>\<open>localeCompare\<close> is: the letter E followed by the combining acute accent U+0301 is
  read as the letter U+00C9, then the character codes are compared.
\<close>

function compose_acute :: "string \<Rightarrow> string" where
  "compose_acute [] = []"
| "compose_acute (c # rest) =
     (if c = CHR ''E'' \<and> take 2 rest = [CHR 0xCC, CHR 0x81]
      then CHR 0xC3 # CHR 0x89 # compose_acute (drop 2 rest)
      else c # compose_acute rest)"
  by pat_completeness auto
termination
  by (relation "measure length") auto

definition canonical_compare :: "string \<Rightarrow> string \<Rightarrow> int" where
  "canonical_compare x y = code_compare (compose_acute x) (compose_acute y)"

section \<open>Sample data\<close>

text \<open>
  A store after \<^verbatim>\<open>seedDatabase\<close>: its instructor and student users with their
  profiles, the course CS101 and its Monday schedule, and one enrollment.
\<close>

definition michael_chen :: user where
  "michael_chen =
     \<lparr>user_name = Some ''Prof. Michael Chen'', user_email = Some ''instructor@university.edu'',
      user_role = Some ''instructor'', user_department = Some ''Computer Science'',
      user_section = None\<rparr>"

definition alex_smith :: user where
  "alex_smith =
     \<lparr>user_name = Some ''Alex Smith'', user_email = Some ''student@university.edu'',
      user_role = Some ''student'', user_department = Some ''Computer Science'',
      user_section = Some ''A''\<rparr>"

definition cs101 :: course where
  "cs101 =
     \<lparr>course_code = Some ''CS101'', course_name = Some ''Introduction to Computer Science'',
      course_department = Some ''Computer Science'', course_credits = Some 3,
      course_type = Some ''lecture'', course_duration = Some 90, course_studentsEnrolled = 45,
      course_requiredCapacity = Some 50, course_specialRequirements = [''projector'', ''computer''],
      course_instructorId = None, course_instructorName = None, course_createdAt = 1000\<rparr>"

definition monday_cs101 :: schedule_init where
  "monday_cs101 =
     \<lparr>init_courseId = Some 100, init_instructorId = Some 10, init_roomId = Some 300,
      init_dayOfWeek = Some ''Monday'', init_startTime = Some ''09:00'', init_endTime = Some ''10:30'',
      init_semester = Some ''First Term'', init_year = Some 2024, init_academicYear = Some ''2024-2025'',
      init_status = None, init_conflicts = [], init_courseCode = None, init_courseName = None,
      init_instructorName = None, init_roomName = None, init_building = None,
      init_createdAt = None, init_updatedAt = None\<rparr>"

definition alex_in_cs101 :: enrollment where
  "alex_in_cs101 =
     \<lparr>enrollment_studentId = Some 20, enrollment_courseId = Some 100,
      enrollment_scheduleId = Some 200, enrollment_instructorId = Some 10,
      enrollment_yearLevel = Some ''2'', enrollment_section = Some ''A'',
      enrollment_department = Some ''Computer Science'', enrollment_studentName = Some ''Alex Smith'',
      enrollment_courseName = Some ''Introduction to Computer Science'',
      enrollment_courseCode = Some ''CS101'', enrollment_createdAt = 1000\<rparr>"

definition seeded :: store where
  "seeded =
     \<lparr>online = True,
      users = [(2, michael_chen), (3, alex_smith)],
      instructors = [(10, \<lparr>instructor_userId = 2, instructor_maxHoursPerWeek = 20,
                           instructor_specializations = [''Computer Science'']\<rparr>)],
      students = [(20, \<lparr>student_userId = 3, student_studentId = Some ''STU1'',
                        student_department = Some ''Computer Science'', student_year = Some ''2'',
                        student_section = Some ''A'', student_enrolledCourses = [100]\<rparr>)],
      courses = [(100, cs101)],
      schedules = [(200, doc (new_Schedule 200 1000 monday_cs101))],
      enrollments = [(500, alex_in_cs101)],
      scheduleRequests = []\<rparr>"

text \<open>CS101 as stored once it is assigned to instructor 10, and the store holding it so.\<close>

definition cs101_of_chen :: course where
  "cs101_of_chen =
     cs101\<lparr>course_instructorId := Some 10, course_instructorName := Some ''Prof. Michael Chen''\<rparr>"

definition seeded_assigned :: store where
  "seeded_assigned = seeded\<lparr>courses := [(100, cs101_of_chen)]\<rparr>"

text \<open>CS101 read from the seeded store and assigned to instructor 10.\<close>

definition cs101_assigned :: "course document" where
  "cs101_assigned =
     \<lparr>doc_id = 100, isNew = False, modifiedPaths = [''instructorId''],
      doc = cs101\<lparr>course_instructorId := Some 10\<rparr>\<rparr>"

text \<open>
  CS101 read from the store where it is assigned, and pointed at instructor 11, who
  does not exist.
\<close>

definition cs101_dangling :: "course document" where
  "cs101_dangling =
     \<lparr>doc_id = 100, isNew = False, modifiedPaths = [''instructorId''],
      doc = cs101_of_chen\<lparr>course_instructorId := Some 11\<rparr>\<rparr>"

text \<open>CS101 read from the store where it is assigned, with its instructorId cleared.\<close>

definition cs101_unassigned :: "course document" where
  "cs101_unassigned =
     \<lparr>doc_id = 100, isNew = False, modifiedPaths = [''instructorId''],
      doc = cs101_of_chen\<lparr>course_instructorId := None\<rparr>\<rparr>"

text \<open>
  Two documents of CS101 that are not in step with the store they are saved into: one
  read before the course was assigned, with its instructorId cleared, saved into the
  store where the course is assigned; one that carries the instructor and his name
  with only instructorId marked, saved into the seeded store.
\<close>

definition cs101_cleared_early :: "course document" where
  "cs101_cleared_early =
     \<lparr>doc_id = 100, isNew = False, modifiedPaths = [''instructorId''], doc = cs101\<rparr>"

definition cs101_named_early :: "course document" where
  "cs101_named_early =
     \<lparr>doc_id = 100, isNew = False, modifiedPaths = [''instructorId''], doc = cs101_of_chen\<rparr>"

text \<open>A second Enrollment of the same student in the same schedule, as a new document.\<close>

definition alex_again :: "enrollment document" where
  "alex_again = \<lparr>doc_id = 501, isNew = True, modifiedPaths = [], doc = alex_in_cs101\<rparr>"

text \<open>The stored Enrollment, moved to a Student and a Course that do not exist.\<close>

definition alex_orphaned :: "enrollment document" where
  "alex_orphaned =
     \<lparr>doc_id = 500, isNew = False, modifiedPaths = [''studentId'', ''courseId''],
      doc = alex_in_cs101\<lparr>enrollment_studentId := Some 21, enrollment_courseId := Some 999\<rparr>\<rparr>"

text \<open>The stored Enrollment, moved to a Course that does not exist; its Student is there.\<close>

definition alex_moved :: "enrollment document" where
  "alex_moved =
     \<lparr>doc_id = 500, isNew = False, modifiedPaths = [''courseId''],
      doc = alex_in_cs101\<lparr>enrollment_courseId := Some 999\<rparr>\<rparr>"


text \<open>
  A second schedule in the room of the first, Monday 10:00 to 11:00, with no status
  given and a conflict description already on it.
\<close>

definition monday_overlap :: schedule_init where
  "monday_overlap =
     monday_cs101\<lparr>init_startTime := Some ''10:00'', init_endTime := Some ''11:00'',
       init_conflicts := [''Room conflict with CS101 Monday 09:00-10:30'']\<rparr>"






text \<open>A schedule of the summary for which the response carries a count and no enrollment.\<close>

definition counted_schedule :: raw_schedule where
  "counted_schedule = \<lparr>s__id = Some ''65f1c0de'', s_id = None, s_enrolledCount = Some 5\<rparr>"






section \<open>Facts about the store\<close>

lemma map_of_replace_doc:
  "i \<in> fst ` set coll \<Longrightarrow> map_of (replace_doc i f coll) i = Some f"
  by (induction coll) force+

lemma map_of_append_new:
  "i \<notin> fst ` set coll \<Longrightarrow> map_of (coll @ [(i, f)]) i = Some f"
  by (induction coll) auto

lemma persist_new:
  assumes "persist ks sp d coll = Inr coll'" and "isNew d"
  shows "coll' = coll @ [(doc_id d, doc d)] \<and> map_of coll' (doc_id d) = Some (doc d)"
  using assms map_of_append_new[of "doc_id d" coll "doc d"]
  by (auto simp: persist_def simp del: map_of_append split: if_splits)

lemma persist_existing:
  assumes "persist ks sp d coll = Inr coll'" and "\<not> isNew d"
  shows "\<exists>stored. map_of coll (doc_id d) = Some stored \<and>
           map_of coll' (doc_id d) = Some (sp (modifiedPaths d) (doc d) stored)"
proof -
  from assms obtain stored where s: "map_of coll (doc_id d) = Some stored"
    and c: "coll' = replace_doc (doc_id d) (sp (modifiedPaths d) (doc d) stored) coll"
    by (auto simp: persist_def split: if_splits option.splits)
  from s have "doc_id d \<in> fst ` set coll"
    by (metis map_of_eq_None_iff option.distinct(1))
  from map_of_replace_doc[OF this] s c show ?thesis by simp
qed

lemma mark_set: "set (mark p changed mods) = (if changed then insert p (set mods) else set mods)"
  by (auto simp: mark_def)

subsection \<open>The hooks\<close>

lemma Course_save_written:
  assumes "Course_save db this = Inr db'"
  shows "online db \<and>
         (\<exists>this'. Course_pre_save db this = Inr this' \<and>
            persist [course_code] Course_set_paths this' (courses db) = Inr (courses db'))"
  using assms
  by (auto simp: Course_save_def split: option.splits sum.splits if_splits)

lemma Course_pre_save_resolved:
  assumes "online db" "course_instructorId (doc this) = Some iid"
    and "linked_user_name db iid = Some n" "n \<noteq> []"
  shows "Course_pre_save db this = Inr (set_instructorName (Some (trim n)) this)"
  using assms
  by (auto simp: Course_pre_save_def findById_def populate_userId_def linked_user_name_def truthy_def
      split: option.splits)

lemma Course_pre_save_unresolved:
  assumes "online db" "course_instructorId (doc this) = Some iid"
    and "\<not> truthy (linked_user_name db iid)"
  shows "Course_pre_save db this = Inr this"
  using assms
  by (auto simp: Course_pre_save_def findById_def populate_userId_def linked_user_name_def
      split: option.splits)

text \<open>
  Assigning instructorName to a document in step with the stored record leaves it
  in step: the write of its modified paths stores the document.
\<close>

lemma in_step_set_instructorName:
  assumes "Course_set_paths (modifiedPaths this) (doc this) stored = doc this"
  shows "Course_set_paths (modifiedPaths (set_instructorName v this))
           (doc (set_instructorName v this)) stored = doc (set_instructorName v this)"
proof -
  have f: "\<And>g. g (Course_set_paths (modifiedPaths this) (doc this) stored) = g (doc this)"
    using assms by simp
  show ?thesis
    apply (rule course.equality)
    subgoal using f[of course_code]
      by (auto simp: Course_set_paths_def set_instructorName_def mark_set split: if_splits)
    subgoal using f[of course_name]
      by (auto simp: Course_set_paths_def set_instructorName_def mark_set split: if_splits)
    subgoal using f[of course_department]
      by (auto simp: Course_set_paths_def set_instructorName_def mark_set split: if_splits)
    subgoal using f[of course_credits]
      by (auto simp: Course_set_paths_def set_instructorName_def mark_set split: if_splits)
    subgoal using f[of course_type]
      by (auto simp: Course_set_paths_def set_instructorName_def mark_set split: if_splits)
    subgoal using f[of course_duration]
      by (auto simp: Course_set_paths_def set_instructorName_def mark_set split: if_splits)
    subgoal using f[of course_studentsEnrolled]
      by (auto simp: Course_set_paths_def set_instructorName_def mark_set split: if_splits)
    subgoal using f[of course_requiredCapacity]
      by (auto simp: Course_set_paths_def set_instructorName_def mark_set split: if_splits)
    subgoal using f[of course_specialRequirements]
      by (auto simp: Course_set_paths_def set_instructorName_def mark_set split: if_splits)
    subgoal using f[of course_instructorId]
      by (auto simp: Course_set_paths_def set_instructorName_def mark_set split: if_splits)
    subgoal using f[of course_instructorName]
      by (auto simp: Course_set_paths_def set_instructorName_def mark_set split: if_splits)
    subgoal using f[of course_createdAt]
      by (auto simp: Course_set_paths_def set_instructorName_def mark_set split: if_splits)
    subgoal by (simp add: Course_set_paths_def set_instructorName_def)
    done
qed

lemma Course_in_step_stored:
  assumes "Course_in_step db this"
    and "persist [course_code] Course_set_paths (set_instructorName v this) (courses db) = Inr coll"
  shows "map_of coll (doc_id this) = Some ((doc this)\<lparr>course_instructorName := v\<rparr>)"
proof (cases "isNew this")
  case True
  then have "isNew (set_instructorName v this)" by (simp add: set_instructorName_def)
  from persist_new[OF assms(2) this, THEN conjunct2] show ?thesis
    by (simp add: set_instructorName_def)
next
  case False
  then have n: "\<not> isNew (set_instructorName v this)" by (simp add: set_instructorName_def)
  from persist_existing[OF assms(2) n] obtain stored
    where s: "map_of (courses db) (doc_id this) = Some stored"
      and c: "map_of coll (doc_id this) =
                Some (Course_set_paths (modifiedPaths (set_instructorName v this))
                        (doc (set_instructorName v this)) stored)"
    by (auto simp: set_instructorName_def)
  from assms(1) False s have "Course_set_paths (modifiedPaths this) (doc this) stored = doc this"
    by (simp add: Course_in_step_def)
  from in_step_set_instructorName[OF this, of v] c show ?thesis
    by (simp add: set_instructorName_def)
qed

lemma populate_student_unresolved:
  assumes "online db" "linked_student_user db (enrollment_studentId (doc this)) = None"
  shows "populate_student db this = Inr this"
  using assms
  by (auto simp: populate_student_def findById_def populate_userId_def linked_student_user_def
      split: option.splits)

lemma populate_course_unresolved:
  assumes "online db" "linked_course db (enrollment_courseId (doc this)) = None"
  shows "populate_course db this = Inr this"
  using assms
  by (auto simp: populate_course_def findById_def linked_course_def split: option.splits)

lemma populate_student_keeps:
  assumes "populate_student db this = Inr this'"
  shows "doc_id this' = doc_id this \<and> isNew this' = isNew this \<and>
         enrollment_studentId (doc this') = enrollment_studentId (doc this) \<and>
         enrollment_courseId (doc this') = enrollment_courseId (doc this) \<and>
         enrollment_scheduleId (doc this') = enrollment_scheduleId (doc this) \<and>
         enrollment_yearLevel (doc this') = enrollment_yearLevel (doc this) \<and>
         enrollment_courseName (doc this') = enrollment_courseName (doc this) \<and>
         enrollment_courseCode (doc this') = enrollment_courseCode (doc this) \<and>
         (''courseName'' \<in> set (modifiedPaths this')) = (''courseName'' \<in> set (modifiedPaths this)) \<and>
         (''courseCode'' \<in> set (modifiedPaths this')) = (''courseCode'' \<in> set (modifiedPaths this))"
  using assms
  by (auto simp: populate_student_def set_student_fields_def mark_set
      split: sum.splits option.splits if_splits)

lemma populate_course_keeps:
  assumes "populate_course db this = Inr this'"
  shows "doc_id this' = doc_id this \<and> isNew this' = isNew this \<and>
         enrollment_studentId (doc this') = enrollment_studentId (doc this) \<and>
         enrollment_courseId (doc this') = enrollment_courseId (doc this) \<and>
         enrollment_scheduleId (doc this') = enrollment_scheduleId (doc this) \<and>
         enrollment_yearLevel (doc this') = enrollment_yearLevel (doc this) \<and>
         enrollment_studentName (doc this') = enrollment_studentName (doc this) \<and>
         enrollment_department (doc this') = enrollment_department (doc this) \<and>
         (''studentName'' \<in> set (modifiedPaths this')) = (''studentName'' \<in> set (modifiedPaths this)) \<and>
         (''department'' \<in> set (modifiedPaths this')) = (''department'' \<in> set (modifiedPaths this))"
  using assms
  by (auto simp: populate_course_def set_course_fields_def mark_set
      split: sum.splits option.splits if_splits)

lemma populate_student_succeeds: "online db \<Longrightarrow> \<exists>this'. populate_student db this = Inr this'"
  by (auto simp: populate_student_def findById_def split: option.splits)

lemma populate_course_succeeds: "online db \<Longrightarrow> \<exists>this'. populate_course db this = Inr this'"
  by (auto simp: populate_course_def findById_def split: option.splits)

lemma Enrollment_pre_save_unresolved:
  assumes "online db" "linked_student_user db (enrollment_studentId (doc this)) = None"
    and "linked_course db (enrollment_courseId (doc this)) = None"
  shows "Enrollment_pre_save db this = Inr this"
  using assms
  by (simp add: Enrollment_pre_save_def populate_student_unresolved populate_course_unresolved)

lemma Enrollment_pre_save_keeps:
  assumes "Enrollment_pre_save db this = Inr this'"
  shows "doc_id this' = doc_id this \<and> isNew this' = isNew this \<and>
         enrollment_studentId (doc this') = enrollment_studentId (doc this) \<and>
         enrollment_courseId (doc this') = enrollment_courseId (doc this) \<and>
         enrollment_scheduleId (doc this') = enrollment_scheduleId (doc this) \<and>
         enrollment_yearLevel (doc this') = enrollment_yearLevel (doc this)"
proof (cases "isNew this \<or> isModified this ''studentId'' \<or> isModified this ''courseId''")
  case False
  then show ?thesis using assms by (simp add: Enrollment_pre_save_def)
next
  case True
  with assms obtain this1 where a: "populate_student db this = Inr this1"
    and b: "populate_course db this1 = Inr this'"
    by (auto simp: Enrollment_pre_save_def split: sum.splits)
  from populate_student_keeps[OF a] populate_course_keeps[OF b] show ?thesis by simp
qed

lemma Enrollment_pre_save_succeeds:
  assumes "online db"
  shows "\<exists>this'. Enrollment_pre_save db this = Inr this'"
proof (cases "isNew this \<or> isModified this ''studentId'' \<or> isModified this ''courseId''")
  case False
  then show ?thesis by (simp add: Enrollment_pre_save_def)
next
  case True
  from populate_student_succeeds[OF assms] obtain this1
    where a: "populate_student db this = Inr this1" by blast
  from populate_course_succeeds[OF assms] obtain this2
    where b: "populate_course db this1 = Inr this2" by blast
  from True a b show ?thesis by (simp add: Enrollment_pre_save_def)
qed

section \<open>Enrollment uniqueness\<close>

text \<open>
  C1. The claim: for every pair (studentId, scheduleId) there is at most one Enrollment
  record, enforced as a constraint of the Enrollment schema at the store boundary. The
  schema declares no unique path and no index. What holds of the save: a new, valid
  Enrollment whose \<^verbatim>\<open>_id\<close> is not taken is written whenever the store is reachable,
  whatever records the pair already has, and the pair then has one record more. So the
  pair has exactly one record after a save only if it had none before.
\<close>

theorem Enrollment_save_accepts_any_pair:
  assumes "online db" and "Enrollment_validate (doc this) = None" and "isNew this"
    and "doc_id this \<notin> fst ` set (enrollments db)"
    and "enrollment_studentId (doc this) = Some sid"
    and "enrollment_scheduleId (doc this) = Some schid"
  shows "\<exists>db'. Enrollment_save db this = Inr db' \<and>
           length (enrollments_of db' sid schid) = Suc (length (enrollments_of db sid schid))"
proof -
  from Enrollment_pre_save_succeeds[OF assms(1)] obtain this'
    where h: "Enrollment_pre_save db this = Inr this'" by blast
  note k = Enrollment_pre_save_keeps[OF h]
  have p: "persist ([] :: (enrollment \<Rightarrow> unit) list) Enrollment_set_paths this' (enrollments db) =
             Inr (enrollments db @ [(doc_id this', doc this')])"
    using k assms(3) assms(4) by (simp add: persist_def)
  have s: "Enrollment_save db this =
             Inr (db\<lparr>enrollments := enrollments db @ [(doc_id this', doc this')]\<rparr>)"
    using assms(1) assms(2) h p by (simp add: Enrollment_save_def)
  show ?thesis
    using s k assms(5) assms(6) by (simp add: enrollments_of_def)
qed

lemma save_again:
  "Enrollment_save seeded alex_again =
     Inr (seeded\<lparr>enrollments := [(500, alex_in_cs101), (501, alex_in_cs101)]\<rparr>)"
  by (simp add: Enrollment_save_def Enrollment_pre_save_def Enrollment_validate_def alex_again_def
      alex_in_cs101_def seeded_def persist_def enum_opt_def populate_student_def populate_course_def
      findById_def populate_userId_def alex_smith_def or_else_def truthy_def cs101_def
      set_student_fields_def set_course_fields_def mark_def)

text \<open>The save of a second Enrollment of Alex Smith in the Monday schedule of CS101.\<close>

theorem Enrollment_save_accepts_any_pair_witness:
  "online seeded \<and> Enrollment_validate (doc alex_again) = None \<and> isNew alex_again \<and>
   doc_id alex_again \<notin> fst ` set (enrollments seeded) \<and>
   enrollment_studentId (doc alex_again) = Some 20 \<and>
   enrollment_scheduleId (doc alex_again) = Some 200 \<and>
   (\<exists>db'. Enrollment_save seeded alex_again = Inr db' \<and>
      length (enrollments_of db' 20 200) = Suc (length (enrollments_of seeded 20 200)))"
proof -
  have h1: "online seeded" by (simp add: seeded_def)
  have h2: "Enrollment_validate (doc alex_again) = None"
    by (simp add: Enrollment_validate_def alex_again_def alex_in_cs101_def enum_opt_def)
  have h3: "isNew alex_again" by (simp add: alex_again_def)
  have h4: "doc_id alex_again \<notin> fst ` set (enrollments seeded)"
    by (simp add: alex_again_def seeded_def)
  have h5: "enrollment_studentId (doc alex_again) = Some 20"
    by (simp add: alex_again_def alex_in_cs101_def)
  have h6: "enrollment_scheduleId (doc alex_again) = Some 200"
    by (simp add: alex_again_def alex_in_cs101_def)
  from Enrollment_save_accepts_any_pair[OF h1 h2 h3 h4 h5 h6] h1 h2 h3 h4 h5 h6
  show ?thesis by blast
qed

text \<open>
  After that save the store holds two Enrollment records, 500 and 501, for the pair
  (student 20, schedule 200).
\<close>

theorem Enrollment_pair_not_unique_counterexample:
  "(case Enrollment_save seeded alex_again of
      Inl err \<Rightarrow> []
    | Inr db' \<Rightarrow> map fst (enrollments_of db' 20 200)) = [500, 501]"
  unfolding save_again
  by (simp add: enrollments_of_def alex_in_cs101_def)

text \<open>
  The guard of \<open>enroll\<close> is such a caller: after a successful enroll, a second
  call for the pair is refused and the pair has exactly one record.
\<close>

lemma Enrollment_save_new:
  assumes "Enrollment_save db this = Inr db'" and "isNew this"
  shows "\<exists>this'. Enrollment_pre_save db this = Inr this' \<and>
           db' = db\<lparr>enrollments := enrollments db @ [(doc_id this, doc this')]\<rparr>"
proof -
  from assms(1) obtain this' coll
    where h: "Enrollment_pre_save db this = Inr this'"
      and p: "persist ([] :: (enrollment \<Rightarrow> unit) list) Enrollment_set_paths this' (enrollments db) = Inr coll"
      and d: "db' = db\<lparr>enrollments := coll\<rparr>"
    by (auto simp: Enrollment_save_def split: option.splits sum.splits if_splits)
  note k = Enrollment_pre_save_keeps[OF h]
  from k assms(2) have "isNew this'" by simp
  from persist_new[OF p this] k have "coll = enrollments db @ [(doc_id this, doc this')]"
    by simp
  with h d show ?thesis by blast
qed

lemma enroll_rejects_second:
  assumes "enroll db oid now sid schid = Inr db'"
  shows "enroll db' oid' now' sid schid = Inl DuplicateEnrollmentError \<and>
         length (enrollments_of db' sid schid) = 1"
proof -
  let ?new = "new_Enrollment db oid now sid schid"
  from assms have on: "online db" and fresh: "enrollments_of db sid schid = []"
    by (auto simp: enroll_def enrolled_def split: if_splits)
  from assms on fresh obtain db1
    where s: "Enrollment_save db ?new = Inr db1"
      and d: "db' = db1\<lparr>courses := increment_studentsEnrolled (enrollment_courseId (doc ?new)) (courses db1)\<rparr>"
    by (auto simp: enroll_def enrolled_def split: sum.splits)
  have new: "isNew ?new" by (simp add: new_Enrollment_def)
  from Enrollment_save_new[OF s new] obtain this'
    where h: "Enrollment_pre_save db ?new = Inr this'"
      and d1: "db1 = db\<lparr>enrollments := enrollments db @ [(doc_id ?new, doc this')]\<rparr>"
    by blast
  from Enrollment_pre_save_keeps[OF h]
  have pair: "enrollment_studentId (doc this') = Some sid" "enrollment_scheduleId (doc this') = Some schid"
    by (simp_all add: new_Enrollment_def)
  have one: "length (enrollments_of db' sid schid) = 1"
    using fresh pair unfolding d d1 enrollments_of_def by simp
  then have "enrolled db' sid schid" by (auto simp: enrolled_def)
  moreover have "online db'" using on unfolding d d1 by simp
  ultimately show ?thesis using one by (simp add: enroll_def)
qed

section \<open>Denormalization of the Course\<close>

lemma trim_chen: "trim ''Prof. Michael Chen'' = ''Prof. Michael Chen''"
  by code_simp

lemma valid_cs101: "Course_validate cs101 = None"
  by (simp add: Course_validate_def cs101_def required_str_def required_min_def enum_opt_def)

lemma valid_cs101_of_chen: "Course_validate cs101_of_chen = None"
  by (simp add: Course_validate_def cs101_of_chen_def cs101_def required_str_def required_min_def
      enum_opt_def)

lemma linked_10: "linked_user_name seeded 10 = Some ''Prof. Michael Chen''"
  by (simp add: linked_user_name_def seeded_def michael_chen_def)

lemma save_assigned:
  "Course_save seeded cs101_assigned = Inr (seeded\<lparr>courses := [(100, cs101_of_chen)]\<rparr>)"
proof -
  have v: "Course_validate (doc cs101_assigned) = None"
    using valid_cs101
    by (simp add: cs101_assigned_def Course_validate_def cs101_def required_str_def
        required_min_def enum_opt_def)
  have h: "Course_pre_save seeded cs101_assigned =
             Inr (set_instructorName (Some ''Prof. Michael Chen'') cs101_assigned)"
    by (simp add: Course_pre_save_def cs101_assigned_def seeded_def findById_def populate_userId_def
        michael_chen_def truthy_def trim_chen)
  have p: "persist [course_code] Course_set_paths
             (set_instructorName (Some ''Prof. Michael Chen'') cs101_assigned) (courses seeded) =
           Inr [(100, cs101_of_chen)]"
    by (simp add: persist_def set_instructorName_def cs101_assigned_def seeded_def violates_def
        Course_set_paths_def mark_def cs101_def cs101_of_chen_def)
  show ?thesis
    using v h p by (simp add: Course_save_def) (simp add: seeded_def)
qed

lemma save_dangling:
  "Course_save seeded_assigned cs101_dangling =
     Inr (seeded_assigned\<lparr>courses := [(100, cs101_of_chen\<lparr>course_instructorId := Some 11\<rparr>)]\<rparr>)"
proof -
  have v: "Course_validate (doc cs101_dangling) = None"
    by (simp add: cs101_dangling_def Course_validate_def cs101_of_chen_def cs101_def required_str_def
        required_min_def enum_opt_def)
  have h: "Course_pre_save seeded_assigned cs101_dangling = Inr cs101_dangling"
    by (simp add: Course_pre_save_def cs101_dangling_def seeded_assigned_def seeded_def findById_def)
  have p: "persist [course_code] Course_set_paths cs101_dangling (courses seeded_assigned) =
           Inr [(100, cs101_of_chen\<lparr>course_instructorId := Some 11\<rparr>)]"
    by (simp add: persist_def cs101_dangling_def seeded_assigned_def violates_def
        Course_set_paths_def cs101_def cs101_of_chen_def)
  show ?thesis
    using v h p by (simp add: Course_save_def) (simp add: seeded_assigned_def seeded_def)
qed

lemma save_named_early:
  "Course_save seeded cs101_named_early =
     Inr (seeded\<lparr>courses := [(100, cs101\<lparr>course_instructorId := Some 10\<rparr>)]\<rparr>)"
proof -
  have v: "Course_validate (doc cs101_named_early) = None"
    using valid_cs101_of_chen by (simp add: cs101_named_early_def)
  have h: "Course_pre_save seeded cs101_named_early = Inr cs101_named_early"
    by (simp add: Course_pre_save_def cs101_named_early_def cs101_of_chen_def seeded_def findById_def
        populate_userId_def michael_chen_def truthy_def trim_chen set_instructorName_def mark_def)
  have p: "persist [course_code] Course_set_paths cs101_named_early (courses seeded) =
           Inr [(100, cs101\<lparr>course_instructorId := Some 10\<rparr>)]"
    by (simp add: persist_def cs101_named_early_def seeded_def violates_def
        Course_set_paths_def cs101_def cs101_of_chen_def)
  show ?thesis
    using v h p by (simp add: Course_save_def) (simp add: seeded_def)
qed

lemma save_unassigned:
  "Course_save seeded_assigned cs101_unassigned = Inr (seeded_assigned\<lparr>courses := [(100, cs101)]\<rparr>)"
proof -
  have v: "Course_validate (doc cs101_unassigned) = None"
    by (simp add: cs101_unassigned_def Course_validate_def cs101_of_chen_def cs101_def required_str_def
        required_min_def enum_opt_def)
  have h: "Course_pre_save seeded_assigned cs101_unassigned = Inr (set_instructorName None cs101_unassigned)"
    by (simp add: Course_pre_save_def cs101_unassigned_def)
  have p: "persist [course_code] Course_set_paths (set_instructorName None cs101_unassigned)
             (courses seeded_assigned) = Inr [(100, cs101)]"
    by (simp add: persist_def set_instructorName_def cs101_unassigned_def seeded_assigned_def
        violates_def Course_set_paths_def mark_def cs101_def cs101_of_chen_def)
  show ?thesis
    using v h p by (simp add: Course_save_def) (simp add: seeded_assigned_def seeded_def)
qed

lemma save_cleared_early:
  "Course_save seeded_assigned cs101_cleared_early =
     Inr (seeded_assigned\<lparr>courses := [(100, cs101_of_chen\<lparr>course_instructorId := None\<rparr>)]\<rparr>)"
proof -
  have v: "Course_validate (doc cs101_cleared_early) = None"
    using valid_cs101 by (simp add: cs101_cleared_early_def)
  have h: "Course_pre_save seeded_assigned cs101_cleared_early = Inr cs101_cleared_early"
    by (simp add: Course_pre_save_def cs101_cleared_early_def cs101_def set_instructorName_def mark_def)
  have p: "persist [course_code] Course_set_paths cs101_cleared_early (courses seeded_assigned) =
           Inr [(100, cs101_of_chen\<lparr>course_instructorId := None\<rparr>)]"
    by (simp add: persist_def cs101_cleared_early_def seeded_assigned_def violates_def
        Course_set_paths_def cs101_def cs101_of_chen_def)
  show ?thesis
    using v h p by (simp add: Course_save_def) (simp add: seeded_assigned_def seeded_def)
qed

text \<open>
  C5. The claim: for every Course saved with instructorId set, the stored
  instructorName equals the name of the User linked through the referenced Instructor.
  What holds: when the reference resolves to a User whose name is non-empty and
  trimmed (as the User schema stores it), and the document is new or in step with its
  stored record, a successful save stores that name.
\<close>

theorem Course_save_denormalizes:
  assumes "course_instructorId (doc this) = Some iid"
    and "linked_user_name db iid = Some n" and "n \<noteq> []" and "trim n = n"
    and "Course_in_step db this"
    and "Course_save db this = Inr db'"
  shows "map_option course_instructorName (map_of (courses db') (doc_id this)) =
           Some (linked_user_name db iid)"
proof -
  from Course_save_written[OF assms(6)] obtain this'
    where on: "online db" and h: "Course_pre_save db this = Inr this'"
      and p: "persist [course_code] Course_set_paths this' (courses db) = Inr (courses db')"
    by blast
  from Course_pre_save_resolved[OF on assms(1) assms(2) assms(3)] h
  have "this' = set_instructorName (Some (trim n)) this" by simp
  with p Course_in_step_stored[OF assms(5), of "Some (trim n)" "courses db'"]
  show ?thesis using assms(2) assms(4) by simp
qed

text \<open>CS101 read from the seeded store and assigned to instructor 10, whose user is Prof. Michael Chen.\<close>

theorem Course_save_denormalizes_witness:
  "course_instructorId (doc cs101_assigned) = Some 10 \<and>
   linked_user_name seeded 10 = Some ''Prof. Michael Chen'' \<and>
   ''Prof. Michael Chen'' \<noteq> [] \<and> trim ''Prof. Michael Chen'' = ''Prof. Michael Chen'' \<and>
   Course_in_step seeded cs101_assigned \<and>
   map_option course_instructorName (map_of (courses seeded) (doc_id cs101_assigned)) = Some None \<and>
   (\<exists>db'. Course_save seeded cs101_assigned = Inr db' \<and>
      map_option course_instructorName (map_of (courses db') (doc_id cs101_assigned)) =
        Some (Some ''Prof. Michael Chen''))"
proof -
  have h1: "course_instructorId (doc cs101_assigned) = Some 10"
    by (simp add: cs101_assigned_def)
  note h2 = linked_10
  have h3: "''Prof. Michael Chen'' \<noteq> []" by simp
  note h4 = trim_chen
  have h5: "Course_in_step seeded cs101_assigned"
    by (simp add: Course_in_step_def cs101_assigned_def seeded_def Course_set_paths_def cs101_def)
  note h6 = save_assigned
  have b: "map_option course_instructorName (map_of (courses seeded) (doc_id cs101_assigned)) = Some None"
    by (simp add: seeded_def cs101_assigned_def cs101_def)
  from Course_save_denormalizes[OF h1 h2 h3 h4 h5 h6] h1 h2 h4 h5 h6 b
  show ?thesis by simp
qed

text \<open>
  Two saves at which the claim fails. CS101, stored with instructor 10 and his name, is
  read and pointed at instructor 11, who does not exist: the save completes, the
  stored instructorId is 11, the stored instructorName is still Prof. Michael Chen,
  and no User is linked through instructor 11. And a document of CS101 that carries
  instructor 10 and his name with only instructorId marked is saved into the store
  whose CS101 has neither: the assignment of the same name marks nothing, and the
  stored instructorName stays unset though the linked User is Prof. Michael Chen.
\<close>

theorem stale_instructorName_counterexample:
  "course_instructorId (doc cs101_dangling) = Some 11 \<and>
   Course_in_step seeded_assigned cs101_dangling \<and>
   (case Course_save seeded_assigned cs101_dangling of
      Inl err \<Rightarrow> None
    | Inr db' \<Rightarrow> map_option (\<lambda>c. (course_instructorId c, course_instructorName c))
                  (map_of (courses db') (doc_id cs101_dangling))) =
     Some (Some 11, Some ''Prof. Michael Chen'') \<and>
   linked_user_name seeded_assigned 11 = None \<and>
   course_instructorId (doc cs101_named_early) = Some 10 \<and>
   linked_user_name seeded 10 = Some ''Prof. Michael Chen'' \<and>
   (case Course_save seeded cs101_named_early of
      Inl err \<Rightarrow> None
    | Inr db' \<Rightarrow> map_option course_instructorName (map_of (courses db') (doc_id cs101_named_early))) =
     Some None"
  unfolding save_dangling save_named_early linked_10
  by (simp add: cs101_dangling_def cs101_named_early_def cs101_of_chen_def cs101_def
      linked_user_name_def seeded_assigned_def seeded_def Course_in_step_def Course_set_paths_def)

text \<open>
  C6. The claim: when a denormalization reference of a Course or an Enrollment does
  not resolve, the save does not abort and the denormalized fields are left unset.
  What holds, the store being reachable: the hook does not abort, and it neither
  assigns nor marks the denormalized fields of a reference that does not resolve, so
  they keep the values they had, set or unset; the save is then validation and the
  write of the document the hook returns, which is the document as passed when no
  reference of it resolves.
\<close>

theorem unresolved_reference_save_proceeds:
  assumes "online db"
  shows "(course_instructorId (doc c) = Some iid \<and> \<not> truthy (linked_user_name db iid) \<longrightarrow>
            Course_pre_save db c = Inr c \<and> Course_save db c = Course_write db c) \<and>
         (\<exists>e'. Enrollment_pre_save db e = Inr e' \<and>
            Enrollment_save db e = Enrollment_write db e' \<and>
            (linked_student_user db (enrollment_studentId (doc e)) = None \<longrightarrow>
               enrollment_studentName (doc e') = enrollment_studentName (doc e) \<and>
               enrollment_department (doc e') = enrollment_department (doc e) \<and>
               (''studentName'' \<in> set (modifiedPaths e')) = (''studentName'' \<in> set (modifiedPaths e)) \<and>
               (''department'' \<in> set (modifiedPaths e')) = (''department'' \<in> set (modifiedPaths e))) \<and>
            (linked_course db (enrollment_courseId (doc e)) = None \<longrightarrow>
               enrollment_courseName (doc e') = enrollment_courseName (doc e) \<and>
               enrollment_courseCode (doc e') = enrollment_courseCode (doc e) \<and>
               (''courseName'' \<in> set (modifiedPaths e')) = (''courseName'' \<in> set (modifiedPaths e)) \<and>
               (''courseCode'' \<in> set (modifiedPaths e')) = (''courseCode'' \<in> set (modifiedPaths e))) \<and>
            (linked_student_user db (enrollment_studentId (doc e)) = None \<and>
             linked_course db (enrollment_courseId (doc e)) = None \<longrightarrow> e' = e))"
proof -
  have A: "course_instructorId (doc c) = Some iid \<and> \<not> truthy (linked_user_name db iid) \<longrightarrow>
            Course_pre_save db c = Inr c \<and> Course_save db c = Course_write db c"
  proof (intro impI)
    assume a: "course_instructorId (doc c) = Some iid \<and> \<not> truthy (linked_user_name db iid)"
    have c: "Course_pre_save db c = Inr c"
      using assms a[THEN conjunct1] a[THEN conjunct2] by (rule Course_pre_save_unresolved)
    have "Course_save db c = Course_write db c"
      by (simp add: Course_save_def Course_write_def c split: option.splits)
    with c show "Course_pre_save db c = Inr c \<and> Course_save db c = Course_write db c"
      by (rule conjI)
  qed
  from Enrollment_pre_save_succeeds[OF assms] obtain e'
    where h: "Enrollment_pre_save db e = Inr e'" by blast
  note k = Enrollment_pre_save_keeps[OF h]
  have v: "Enrollment_validate (doc e') = Enrollment_validate (doc e)"
    using k by (simp add: Enrollment_validate_def)
  have w: "Enrollment_save db e = Enrollment_write db e'"
    by (simp add: Enrollment_save_def Enrollment_write_def h v split: option.splits)
  have s: "linked_student_user db (enrollment_studentId (doc e)) = None \<longrightarrow>
               enrollment_studentName (doc e') = enrollment_studentName (doc e) \<and>
               enrollment_department (doc e') = enrollment_department (doc e) \<and>
               (''studentName'' \<in> set (modifiedPaths e')) = (''studentName'' \<in> set (modifiedPaths e)) \<and>
               (''department'' \<in> set (modifiedPaths e')) = (''department'' \<in> set (modifiedPaths e))"
  proof (cases "isNew e \<or> isModified e ''studentId'' \<or> isModified e ''courseId''")
    case False
    then show ?thesis using h by (simp add: Enrollment_pre_save_def)
  next
    case True
    with h obtain e1 where a: "populate_student db e = Inr e1" and b: "populate_course db e1 = Inr e'"
      by (auto simp: Enrollment_pre_save_def split: sum.splits)
    show ?thesis
    proof
      assume "linked_student_user db (enrollment_studentId (doc e)) = None"
      from populate_student_unresolved[OF assms this] a have "e1 = e" by simp
      with populate_course_keeps[OF b] show
        "enrollment_studentName (doc e') = enrollment_studentName (doc e) \<and>
         enrollment_department (doc e') = enrollment_department (doc e) \<and>
         (''studentName'' \<in> set (modifiedPaths e')) = (''studentName'' \<in> set (modifiedPaths e)) \<and>
         (''department'' \<in> set (modifiedPaths e')) = (''department'' \<in> set (modifiedPaths e))"
        by simp
    qed
  qed
  have t: "linked_course db (enrollment_courseId (doc e)) = None \<longrightarrow>
               enrollment_courseName (doc e') = enrollment_courseName (doc e) \<and>
               enrollment_courseCode (doc e') = enrollment_courseCode (doc e) \<and>
               (''courseName'' \<in> set (modifiedPaths e')) = (''courseName'' \<in> set (modifiedPaths e)) \<and>
               (''courseCode'' \<in> set (modifiedPaths e')) = (''courseCode'' \<in> set (modifiedPaths e))"
  proof (cases "isNew e \<or> isModified e ''studentId'' \<or> isModified e ''courseId''")
    case False
    then show ?thesis using h by (simp add: Enrollment_pre_save_def)
  next
    case True
    with h obtain e1 where a: "populate_student db e = Inr e1" and b: "populate_course db e1 = Inr e'"
      by (auto simp: Enrollment_pre_save_def split: sum.splits)
    note ka = populate_student_keeps[OF a]
    show ?thesis
    proof
      assume "linked_course db (enrollment_courseId (doc e)) = None"
      with ka have "linked_course db (enrollment_courseId (doc e1)) = None" by simp
      from populate_course_unresolved[OF assms this] b have "e' = e1" by simp
      with ka show
        "enrollment_courseName (doc e') = enrollment_courseName (doc e) \<and>
         enrollment_courseCode (doc e') = enrollment_courseCode (doc e) \<and>
         (''courseName'' \<in> set (modifiedPaths e')) = (''courseName'' \<in> set (modifiedPaths e)) \<and>
         (''courseCode'' \<in> set (modifiedPaths e')) = (''courseCode'' \<in> set (modifiedPaths e))"
        by simp
    qed
  qed
  have u: "linked_student_user db (enrollment_studentId (doc e)) = None \<and>
           linked_course db (enrollment_courseId (doc e)) = None \<longrightarrow> e' = e"
  proof (intro impI)
    assume n: "linked_student_user db (enrollment_studentId (doc e)) = None \<and>
               linked_course db (enrollment_courseId (doc e)) = None"
    from Enrollment_pre_save_unresolved[OF assms n[THEN conjunct1] n[THEN conjunct2]] h
    show "e' = e" by simp
  qed
  have B: "\<exists>e'. Enrollment_pre_save db e = Inr e' \<and>
            Enrollment_save db e = Enrollment_write db e' \<and>
            (linked_student_user db (enrollment_studentId (doc e)) = None \<longrightarrow>
               enrollment_studentName (doc e') = enrollment_studentName (doc e) \<and>
               enrollment_department (doc e') = enrollment_department (doc e) \<and>
               (''studentName'' \<in> set (modifiedPaths e')) = (''studentName'' \<in> set (modifiedPaths e)) \<and>
               (''department'' \<in> set (modifiedPaths e')) = (''department'' \<in> set (modifiedPaths e))) \<and>
            (linked_course db (enrollment_courseId (doc e)) = None \<longrightarrow>
               enrollment_courseName (doc e') = enrollment_courseName (doc e) \<and>
               enrollment_courseCode (doc e') = enrollment_courseCode (doc e) \<and>
               (''courseName'' \<in> set (modifiedPaths e')) = (''courseName'' \<in> set (modifiedPaths e)) \<and>
               (''courseCode'' \<in> set (modifiedPaths e')) = (''courseCode'' \<in> set (modifiedPaths e))) \<and>
            (linked_student_user db (enrollment_studentId (doc e)) = None \<and>
             linked_course db (enrollment_courseId (doc e)) = None \<longrightarrow> e' = e)"
  proof (rule exI[of _ e'], intro conjI)
    show "Enrollment_pre_save db e = Inr e'" by (rule h)
    show "Enrollment_save db e = Enrollment_write db e'" by (rule w)
  qed (rule s, rule t, rule u)
  from A B show ?thesis by (rule conjI)
qed

lemma save_orphaned:
  "Enrollment_save seeded alex_orphaned =
     Inr (seeded\<lparr>enrollments :=
       [(500, alex_in_cs101\<lparr>enrollment_studentId := Some 21, enrollment_courseId := Some 999\<rparr>)]\<rparr>)"
  by (simp add: Enrollment_save_def Enrollment_pre_save_def Enrollment_validate_def alex_orphaned_def
      alex_in_cs101_def seeded_def persist_def enum_opt_def populate_student_def populate_course_def
      findById_def populate_userId_def isModified_def Enrollment_set_paths_def)

text \<open>
  CS101 pointed at instructor 11; the Enrollment moved to course 999, its Student
  resolving; and the Enrollment moved to student 21 and course 999, neither resolving.
\<close>

theorem unresolved_reference_save_proceeds_witness:
  "online seeded_assigned \<and> course_instructorId (doc cs101_dangling) = Some 11 \<and>
   \<not> truthy (linked_user_name seeded_assigned 11) \<and>
   Course_pre_save seeded_assigned cs101_dangling = Inr cs101_dangling \<and>
   Course_save seeded_assigned cs101_dangling = Course_write seeded_assigned cs101_dangling \<and>
   linked_student_user seeded_assigned (enrollment_studentId (doc alex_moved)) \<noteq> None \<and>
   linked_course seeded_assigned (enrollment_courseId (doc alex_moved)) = None \<and>
   (\<exists>e'. Enrollment_pre_save seeded_assigned alex_moved = Inr e' \<and>
      Enrollment_save seeded_assigned alex_moved = Enrollment_write seeded_assigned e' \<and>
      enrollment_courseName (doc e') = Some ''Introduction to Computer Science'' \<and>
      enrollment_courseCode (doc e') = Some ''CS101'' \<and>
      ''courseName'' \<notin> set (modifiedPaths e') \<and> ''courseCode'' \<notin> set (modifiedPaths e')) \<and>
   linked_student_user seeded_assigned (enrollment_studentId (doc alex_orphaned)) = None \<and>
   linked_course seeded_assigned (enrollment_courseId (doc alex_orphaned)) = None \<and>
   Enrollment_pre_save seeded_assigned alex_orphaned = Inr alex_orphaned \<and>
   Enrollment_save seeded_assigned alex_orphaned = Enrollment_write seeded_assigned alex_orphaned"
proof -
  have h1: "online seeded_assigned" by (simp add: seeded_assigned_def seeded_def)
  have h2: "course_instructorId (doc cs101_dangling) = Some 11"
    by (simp add: cs101_dangling_def)
  have h3: "\<not> truthy (linked_user_name seeded_assigned 11)"
    by (simp add: truthy_def linked_user_name_def seeded_assigned_def seeded_def)
  have m1: "linked_student_user seeded_assigned (enrollment_studentId (doc alex_moved)) \<noteq> None"
    by (simp add: linked_student_user_def alex_moved_def alex_in_cs101_def seeded_assigned_def seeded_def)
  have m2: "linked_course seeded_assigned (enrollment_courseId (doc alex_moved)) = None"
    by (simp add: linked_course_def alex_moved_def seeded_assigned_def seeded_def)
  have m3: "enrollment_courseName (doc alex_moved) = Some ''Introduction to Computer Science'' \<and>
            enrollment_courseCode (doc alex_moved) = Some ''CS101'' \<and>
            ''courseName'' \<notin> set (modifiedPaths alex_moved) \<and>
            ''courseCode'' \<notin> set (modifiedPaths alex_moved)"
    by (simp add: alex_moved_def alex_in_cs101_def)
  have o1: "linked_student_user seeded_assigned (enrollment_studentId (doc alex_orphaned)) = None"
    by (simp add: linked_student_user_def alex_orphaned_def seeded_assigned_def seeded_def)
  have o2: "linked_course seeded_assigned (enrollment_courseId (doc alex_orphaned)) = None"
    by (simp add: linked_course_def alex_orphaned_def seeded_assigned_def seeded_def)
  note c = unresolved_reference_save_proceeds[OF h1, of cs101_dangling 11 alex_moved, THEN conjunct1]
  note m = unresolved_reference_save_proceeds[OF h1, of cs101_dangling 11 alex_moved, THEN conjunct2]
  note o = unresolved_reference_save_proceeds[OF h1, of cs101_dangling 11 alex_orphaned, THEN conjunct2]
  from c h2 h3 have C: "Course_pre_save seeded_assigned cs101_dangling = Inr cs101_dangling \<and>
      Course_save seeded_assigned cs101_dangling = Course_write seeded_assigned cs101_dangling"
    by simp
  from m m2 m3 have M: "\<exists>e'. Enrollment_pre_save seeded_assigned alex_moved = Inr e' \<and>
      Enrollment_save seeded_assigned alex_moved = Enrollment_write seeded_assigned e' \<and>
      enrollment_courseName (doc e') = Some ''Introduction to Computer Science'' \<and>
      enrollment_courseCode (doc e') = Some ''CS101'' \<and>
      ''courseName'' \<notin> set (modifiedPaths e') \<and> ''courseCode'' \<notin> set (modifiedPaths e')"
    by (elim exE conjE) (rule exI, simp)
  from o o1 o2 have O: "Enrollment_pre_save seeded_assigned alex_orphaned = Inr alex_orphaned \<and>
      Enrollment_save seeded_assigned alex_orphaned = Enrollment_write seeded_assigned alex_orphaned"
    by (elim exE conjE) simp
  from h1 h2 h3 C m1 m2 M o1 o2 O show ?thesis by simp
qed

text \<open>
  The Enrollment is saved with a Student and a Course that do not exist: the save
  completes, and the stored studentName, courseName and courseCode are those of the
  former references, not unset.
\<close>

theorem unresolved_fields_not_unset_counterexample:
  "linked_student_user seeded (enrollment_studentId (doc alex_orphaned)) = None \<and>
   linked_course seeded (enrollment_courseId (doc alex_orphaned)) = None \<and>
   (case Enrollment_save seeded alex_orphaned of
      Inl err \<Rightarrow> None
    | Inr db' \<Rightarrow>
        map_option (\<lambda>e. (enrollment_studentName e, enrollment_courseName e, enrollment_courseCode e))
          (map_of (enrollments db') (doc_id alex_orphaned))) =
     Some (Some ''Alex Smith'', Some ''Introduction to Computer Science'', Some ''CS101'')"
  unfolding save_orphaned
  by (simp add: alex_orphaned_def alex_in_cs101_def linked_student_user_def
      linked_course_def seeded_def)

text \<open>
  C7. The claim: for every Course saved with instructorId cleared, instructorName is
  unset after the save. The hook assigns undefined to instructorName and cannot fail,
  but an assignment that changes nothing marks nothing, and a save writes the marked
  paths only. What holds: when the document is new or in step with its stored record,
  a successful save stores the Course with instructorName unset and every other field
  as in the document.
\<close>

theorem Course_save_clears_instructorName:
  assumes "course_instructorId (doc this) = None" and "Course_in_step db this"
    and "Course_save db this = Inr db'"
  shows "Course_pre_save db this = Inr (set_instructorName None this) \<and>
         map_of (courses db') (doc_id this) = Some ((doc this)\<lparr>course_instructorName := None\<rparr>)"
proof -
  have hook: "Course_pre_save db this = Inr (set_instructorName None this)"
    using assms(1) by (simp add: Course_pre_save_def)
  from Course_save_written[OF assms(3)] hook
  have "persist [course_code] Course_set_paths (set_instructorName None this) (courses db) =
          Inr (courses db')"
    by auto
  from Course_in_step_stored[OF assms(2) this] hook show ?thesis by simp
qed

text \<open>
  CS101, stored with instructor 10 and the name Prof. Michael Chen, is read and saved
  with its instructorId cleared: the stored name is gone.
\<close>

theorem Course_save_clears_instructorName_witness:
  "course_instructorId (doc cs101_unassigned) = None \<and>
   Course_in_step seeded_assigned cs101_unassigned \<and>
   map_option course_instructorName (map_of (courses seeded_assigned) (doc_id cs101_unassigned)) =
     Some (Some ''Prof. Michael Chen'') \<and>
   (\<exists>db'. Course_save seeded_assigned cs101_unassigned = Inr db' \<and>
      map_option course_instructorName (map_of (courses db') (doc_id cs101_unassigned)) = Some None)"
proof -
  have h1: "course_instructorId (doc cs101_unassigned) = None"
    by (simp add: cs101_unassigned_def)
  have h2: "Course_in_step seeded_assigned cs101_unassigned"
    by (simp add: Course_in_step_def cs101_unassigned_def seeded_assigned_def Course_set_paths_def
        cs101_of_chen_def cs101_def)
  have b: "map_option course_instructorName (map_of (courses seeded_assigned) (doc_id cs101_unassigned)) =
     Some (Some ''Prof. Michael Chen'')"
    by (simp add: seeded_assigned_def cs101_unassigned_def cs101_of_chen_def)
  note h3 = save_unassigned
  from Course_save_clears_instructorName[OF h1 h2 h3] h1 h2 h3 b
  show ?thesis by simp
qed

text \<open>
  A document of CS101 read before the course was assigned carries no instructorName.
  Its instructorId is cleared and it is saved into the store where CS101 has instructor
  10 and his name: the save completes, the stored instructorId is cleared, and the
  stored instructorName is still Prof. Michael Chen.
\<close>

theorem instructorName_survives_counterexample:
  "course_instructorId (doc cs101_cleared_early) = None \<and>
   (case Course_save seeded_assigned cs101_cleared_early of
      Inl err \<Rightarrow> None
    | Inr db' \<Rightarrow> map_option (\<lambda>c. (course_instructorId c, course_instructorName c))
                  (map_of (courses db') (doc_id cs101_cleared_early))) =
     Some (None, Some ''Prof. Michael Chen'')"
  unfolding save_cleared_early
  by (simp add: cs101_cleared_early_def cs101_of_chen_def cs101_def)

section \<open>Saving a Schedule\<close>

lemma save_overlap:
  "Schedule_save 2000 seeded (new_Schedule 201 2000 monday_overlap) =
     Inr (seeded\<lparr>schedules := [(200, doc (new_Schedule 200 1000 monday_cs101)),
                                (201, doc (new_Schedule 201 2000 monday_overlap))]\<rparr>)"
  by (simp add: Schedule_save_def Schedule_pre_save_def Schedule_validate_def new_Schedule_def
      monday_overlap_def monday_cs101_def seeded_def persist_def enum_opt_def required_str_def
      mark_def)

lemma Schedule_save_written:
  assumes "Schedule_save now db this = Inr db'"
  shows "\<exists>coll. persist ([] :: (schedule \<Rightarrow> unit) list) Schedule_set_paths
                  (Schedule_pre_save now this) (schedules db) = Inr coll \<and>
           db' = db\<lparr>schedules := coll\<rparr>"
  using assms
  by (auto simp: Schedule_save_def split: option.splits sum.splits if_splits)

text \<open>
  C4. The claim: no Schedule is registered as published without a conflict pass, so a
  persisted published Schedule has an empty conflicts list, and a new conflict moves
  the status to conflict. The save runs no conflict detection. What holds: a Schedule
  constructed without a status is persisted as published, by the schema default, one
  constructed with a status is persisted with it, and the conflicts list is persisted
  as the caller gave it.
\<close>

theorem Schedule_save_keeps_status_and_conflicts:
  assumes "Schedule_save now db (new_Schedule oid t init) = Inr db'"
  shows "map_option schedule_status (map_of (schedules db') oid) =
           Some (case init_status init of None \<Rightarrow> ''published'' | Some st \<Rightarrow> st) \<and>
         map_option schedule_conflicts (map_of (schedules db') oid) = Some (init_conflicts init)"
proof -
  from Schedule_save_written[OF assms] obtain coll
    where p: "persist ([] :: (schedule \<Rightarrow> unit) list) Schedule_set_paths
                (Schedule_pre_save now (new_Schedule oid t init)) (schedules db) = Inr coll"
      and db': "db' = db\<lparr>schedules := coll\<rparr>"
    by blast
  have "isNew (Schedule_pre_save now (new_Schedule oid t init))"
    by (simp add: Schedule_pre_save_def new_Schedule_def)
  from persist_new[OF p this, THEN conjunct2] db' show ?thesis
    by (simp add: Schedule_pre_save_def new_Schedule_def)
qed

text \<open>The Monday schedule of CS101 as a draft, saved into the seeded store.\<close>

theorem Schedule_save_keeps_status_and_conflicts_witness:
  "(\<exists>db'. Schedule_save 2000 seeded (new_Schedule 202 2000 (monday_cs101\<lparr>init_status := Some ''draft''\<rparr>)) = Inr db' \<and>
      map_option schedule_status (map_of (schedules db') 202) = Some ''draft'' \<and>
      map_option schedule_conflicts (map_of (schedules db') 202) = Some [])"
proof -
  have s: "Schedule_save 2000 seeded (new_Schedule 202 2000 (monday_cs101\<lparr>init_status := Some ''draft''\<rparr>)) =
     Inr (seeded\<lparr>schedules := [(200, doc (new_Schedule 200 1000 monday_cs101)),
       (202, doc (new_Schedule 202 2000 (monday_cs101\<lparr>init_status := Some ''draft''\<rparr>)))]\<rparr>)"
    by (simp add: Schedule_save_def Schedule_pre_save_def Schedule_validate_def new_Schedule_def
        monday_cs101_def seeded_def persist_def enum_opt_def required_str_def mark_def)
  from Schedule_save_keeps_status_and_conflicts[OF s] s
  show ?thesis by (simp add: monday_cs101_def)
qed

text \<open>
  A schedule in the room of the published Monday 09:00 to 10:30 schedule, for Monday
  10:00 to 11:00, constructed without a status and with a conflict description on it,
  is persisted as published with its conflicts list non-empty.
\<close>

theorem published_with_conflicts_counterexample:
  "(case Schedule_save 2000 seeded (new_Schedule 201 2000 monday_overlap) of
      Inl err \<Rightarrow> None
    | Inr db' \<Rightarrow> map_option (\<lambda>s. (schedule_status s, schedule_conflicts s)) (map_of (schedules db') 201)) =
     Some (''published'', [''Room conflict with CS101 Monday 09:00-10:30''])"
  unfolding save_overlap
  by (simp add: new_Schedule_def monday_overlap_def monday_cs101_def)







section \<open>Approval of a request\<close>




section \<open>Conflict detection\<close>

lemma set_comparison_set:
  "set (comparison_set c es) =
     {e \<in> set es. counts e \<and> claim_id e \<noteq> claim_id c \<and> overlaps c e}"
  by (auto simp: comparison_set_def)

text \<open>
  C3. For every candidate and set of existing claims, the detector reports a conflict
  if and only if some existing claim that counts (published or approved), is another
  record and shares the resource of one of the three classes is on the same day with
  candidate.start < existing.end and existing.start < candidate.end. Touching
  windows, one ending at the time the other starts, never produce a conflict.
\<close>

theorem conflict_iff_half_open_overlap:
  "(detectConflicts aff c es \<noteq> []) =
     (\<exists>e \<in> set es. counts e \<and> claim_id e \<noteq> claim_id c \<and> shares aff c e \<and>
        claim_day c = claim_day e \<and> claim_start c < claim_end e \<and> claim_start e < claim_end c) \<and>
   overlaps c e =
     (claim_day c = claim_day e \<and> claim_start c < claim_end e \<and> claim_start e < claim_end c) \<and>
   detectConflicts aff (c\<lparr>claim_end := t\<rparr>) [e\<lparr>claim_start := t\<rparr>] = [] \<and>
   detectConflicts aff (c\<lparr>claim_start := t\<rparr>) [e\<lparr>claim_end := t\<rparr>] = []"
proof -
  have iff: "(detectConflicts aff c es \<noteq> []) =
     (\<exists>e \<in> set es. counts e \<and> claim_id e \<noteq> claim_id c \<and> shares aff c e \<and>
        claim_day c = claim_day e \<and> claim_start c < claim_end e \<and> claim_start e < claim_end c)"
    (is "?L = ?R")
  proof
    assume ?L
    then obtain x where "x \<in> set (comparison_set c es)" "shares aff c x"
      by (auto simp: detectConflicts_def shares_def filter_empty_conv split: if_splits)
    then show ?R by (auto simp: set_comparison_set overlaps_def)
  next
    assume ?R
    then obtain x where "x \<in> set (comparison_set c es)" "shares aff c x"
      by (auto simp: set_comparison_set overlaps_def)
    then show ?L
      by (auto simp: detectConflicts_def shares_def filter_empty_conv)
  qed
  have touch: "detectConflicts aff (c\<lparr>claim_end := t\<rparr>) [e\<lparr>claim_start := t\<rparr>] = [] \<and>
               detectConflicts aff (c\<lparr>claim_start := t\<rparr>) [e\<lparr>claim_end := t\<rparr>] = []"
    by (simp add: detectConflicts_def comparison_set_def overlaps_def)
  show ?thesis using iff touch by (simp add: overlaps_def)
qed

section \<open>Enrollment counts of the admin page\<close>

lemma track_apply:
  "track m e k =
     (if tracked_scheduleId e = Some k then Some ((case m k of None \<Rightarrow> 0 | Some c \<Rightarrow> c) + 1)
      else m k)"
  by (simp add: track_def split: option.splits)

lemma foldl_track:
  "foldl track m es k =
     (if filter (\<lambda>e. tracked_scheduleId e = Some k) es = [] then m k
      else Some ((case m k of None \<Rightarrow> 0 | Some c \<Rightarrow> c) +
             length (filter (\<lambda>e. tracked_scheduleId e = Some k) es)))"
proof (induction es arbitrary: m)
  case Nil
  then show ?case by simp
next
  case (Cons e es)
  have step: "foldl track m (e # es) k =
      (if filter (\<lambda>e. tracked_scheduleId e = Some k) es = [] then track m e k
       else Some ((case track m e k of None \<Rightarrow> 0 | Some c \<Rightarrow> c) +
              length (filter (\<lambda>e. tracked_scheduleId e = Some k) es)))"
    using Cons.IH[of "track m e"] by simp
  show ?case
    unfolding step by (simp add: track_apply)
qed

lemma tracked_count:
  "enrollmentsBySchedule es (KeyString k) =
     (if referencing es k = [] then None else Some (length (referencing es k)))"
  by (simp add: enrollmentsBySchedule_def foldl_track referencing_def)

text \<open>
  C8. The claim: for every schedule of the summary, enrolledCount equals the number
  of fetched Enrollment records referencing the schedule. What holds: it equals that
  number when at least one fetched record references the schedule; with none (or
  with no id on the schedule) it is the enrolledCount of the schedules response, and
  0 when that is absent.
\<close>

theorem enrolledCount_tracked_or_fallback:
  "enrolledCount (enrollmentsBySchedule es) s =
     (case summary_id s of
        None \<Rightarrow> (case s_enrolledCount s of None \<Rightarrow> 0 | Some n \<Rightarrow> n)
      | Some k \<Rightarrow>
          (if referencing es k \<noteq> [] then length (referencing es k)
           else (case s_enrolledCount s of None \<Rightarrow> 0 | Some n \<Rightarrow> n)))"
  by (auto simp: enrolledCount_def tracked_count split: option.splits nat.splits)

text \<open>
  No enrollment is fetched and the schedules response gives the schedule an
  enrolledCount of 5: the summary shows 5, and no Enrollment record references it.
\<close>

theorem enrolledCount_fallback_counterexample:
  "summary_id counted_schedule = Some ''65f1c0de'' \<and>
   enrolledCount (enrollmentsBySchedule []) counted_schedule = 5 \<and>
   length (referencing [] ''65f1c0de'') = 0"
  by (simp add: enrolledCount_def enrollmentsBySchedule_def counted_schedule_def summary_id_def
      or_else_def truthy_def referencing_def)

section \<open>Order of the enrolled-students table\<close>

lemma code_compare_zero: "(code_compare x y = 0) = (x = y)"
  by (induction x y rule: code_compare.induct) auto

lemma code_compare_less: "(code_compare x y < 0) = (0 < code_compare y x)"
  by (induction x y rule: code_compare.induct) auto

lemma code_compare_neg_Cons:
  "(code_compare (a # xs) (b # ys) < 0) =
     ((of_char a :: nat) < of_char b \<or> (a = b \<and> code_compare xs ys < 0))"
  by auto

lemma code_compare_trans:
  "code_compare x y < 0 \<Longrightarrow> code_compare y z < 0 \<Longrightarrow> code_compare x z < 0"
proof (induction x arbitrary: y z)
  case Nil
  from Nil(2) obtain c zs where "z = c # zs"
    by (cases y; cases z) simp_all
  then show ?case by simp
next
  case (Cons a xs)
  from Cons.prems(1) obtain b ys where y: "y = b # ys" by (cases y) simp_all
  from Cons.prems(2) y obtain c zs where z: "z = c # zs" by (cases z) simp_all
  from Cons.prems(1) y
  have ab: "(of_char a :: nat) < of_char b \<or> (a = b \<and> code_compare xs ys < 0)"
    by (simp only: code_compare_neg_Cons)
  from Cons.prems(2) y z
  have bc: "(of_char b :: nat) < of_char c \<or> (b = c \<and> code_compare ys zs < 0)"
    by (simp only: code_compare_neg_Cons)
  have "(of_char a :: nat) < of_char c \<or> (a = c \<and> code_compare xs zs < 0)"
    using ab bc Cons.IH[of ys zs] by (metis order_less_trans)
  then show ?case unfolding z by (simp only: code_compare_neg_Cons)
qed

lemma code_compare_le_trans:
  assumes "code_compare x y \<le> 0" "code_compare y z \<le> 0"
  shows "code_compare x z \<le> 0"
proof -
  from assms(1) have xy: "code_compare x y < 0 \<or> x = y"
    by (simp add: order_le_less code_compare_zero)
  from assms(2) have yz: "code_compare y z < 0 \<or> y = z"
    by (simp add: order_le_less code_compare_zero)
  from xy yz code_compare_trans[of x y z] have "code_compare x z < 0 \<or> x = z" by blast
  then show ?thesis by (simp add: order_le_less code_compare_zero)
qed

lemma consistent_code_compare: "consistent code_compare"
  unfolding consistent_def
proof (intro conjI allI)
  fix x show "code_compare x x = 0" by (simp add: code_compare_zero)
next
  fix x y show "(code_compare x y < 0) = (0 < code_compare y x)" by (rule code_compare_less)
next
  fix x y z
  show "\<not> (code_compare x y \<le> 0 \<and> code_compare y z \<le> 0 \<and> \<not> code_compare x z \<le> 0)"
    using code_compare_le_trans[of x y z] by blast
qed

lemma consistent_canonical_compare: "consistent canonical_compare"
  using consistent_code_compare unfolding consistent_def canonical_compare_def by blast




















end
